theory Spec2Isabelle
  imports Main "HOL-Library.Word"
begin

unbundle bit_operations_syntax

section \<open>On-disk constants (ondisk.h)\<close>

type_synonym u8 = "8 word"
type_synonym u16 = "16 word"
type_synonym u32 = "32 word"
type_synonym u64 = "64 word"

definition LSFS_SEGMENT_MAGIC :: u32 where "LSFS_SEGMENT_MAGIC = 0x5345474D"
definition LSFS_CHECKPOINT_MAGIC :: u32 where "LSFS_CHECKPOINT_MAGIC = 0x43484B50"
definition LSFS_VERSION :: u32 where "LSFS_VERSION = 1"

definition LSFS_BLOCK_SIZE :: nat where "LSFS_BLOCK_SIZE = 4096"
definition LSFS_SEGMENT_BLOCKS :: nat where "LSFS_SEGMENT_BLOCKS = 1024"
definition LSFS_MAX_INODES :: nat where "LSFS_MAX_INODES = 65536"

definition LSFS_SUPERBLOCK_BLOCK :: u64 where "LSFS_SUPERBLOCK_BLOCK = 0"
definition LSFS_CHECKPOINT0_START :: u64 where "LSFS_CHECKPOINT0_START = 1"
definition LSFS_CHECKPOINT0_BLOCKS :: nat where "LSFS_CHECKPOINT0_BLOCKS = 256"
definition LSFS_CHECKPOINT1_START :: u64 where "LSFS_CHECKPOINT1_START = 257"
definition LSFS_SEGTABLE_START :: u64 where "LSFS_SEGTABLE_START = 513"
definition LSFS_SEGTABLE_BLOCKS :: nat where "LSFS_SEGTABLE_BLOCKS = 512"
definition LSFS_LOG_START :: u64 where "LSFS_LOG_START = 1025"

section \<open>Segment address conversion (segment.c)\<close>

text \<open>
  \<^verbatim>\<open>return LSFS_LOG_START + (uint64_t)segment_id * LSFS_SEGMENT_BLOCKS + offset;\<close>
  Both arguments are 32-bit; the sum is formed in 64 bits.
\<close>

definition lsfs_segment_to_block :: "u32 \<Rightarrow> u32 \<Rightarrow> u64" where
  "lsfs_segment_to_block segment_id offset =
     LSFS_LOG_START + (ucast segment_id :: u64) * 1024 + (ucast offset :: u64)"

text \<open>
  The two out-parameters are returned as a pair. The quotient is cast back to 32 bits,
  as the source does.
\<close>

definition lsfs_block_to_segment :: "u64 \<Rightarrow> u32 \<times> u32" where
  "lsfs_block_to_segment block =
     (if block < LSFS_LOG_START then (0, 0)
      else let log_block = block - LSFS_LOG_START
           in (ucast (log_block div 1024), ucast (log_block mod 1024)))"



section \<open>Result codes (lsfs.h)\<close>

text \<open>The integer result codes \<^verbatim>\<open>LSFS_OK\<close> (0) and \<^verbatim>\<open>LSFS_ERR_*\<close> (-1 .. -10).\<close>

datatype status =
    LSFS_OK | LSFS_ERR_IO | LSFS_ERR_NOMEM | LSFS_ERR_NOSPC | LSFS_ERR_CORRUPT
  | LSFS_ERR_EXIST | LSFS_ERR_NOENT | LSFS_ERR_NOTDIR | LSFS_ERR_ISDIR
  | LSFS_ERR_NOTEMPTY | LSFS_ERR_INVAL

section \<open>Little-endian byte images\<close>

text \<open>
  All on-disk structures are packed and little-endian. A block is a list of 4096
  bytes; a structure is read from a byte list at a byte offset.
\<close>

type_synonym block = "u8 list"

definition le16 :: "u16 \<Rightarrow> u8 list" where
  "le16 w = [ucast w, ucast (drop_bit 8 w)]"

definition le32 :: "u32 \<Rightarrow> u8 list" where
  "le32 w = [ucast w, ucast (drop_bit 8 w), ucast (drop_bit 16 w), ucast (drop_bit 24 w)]"

definition le64 :: "u64 \<Rightarrow> u8 list" where
  "le64 w = [ucast w, ucast (drop_bit 8 w), ucast (drop_bit 16 w), ucast (drop_bit 24 w),
             ucast (drop_bit 32 w), ucast (drop_bit 40 w), ucast (drop_bit 48 w),
             ucast (drop_bit 56 w)]"

definition rd16 :: "u8 list \<Rightarrow> nat \<Rightarrow> u16" where
  "rd16 b i = ucast (b ! i) OR push_bit 8 (ucast (b ! (i + 1)))"

definition rd32 :: "u8 list \<Rightarrow> nat \<Rightarrow> u32" where
  "rd32 b i = ucast (b ! i) OR push_bit 8 (ucast (b ! (i + 1)))
              OR push_bit 16 (ucast (b ! (i + 2))) OR push_bit 24 (ucast (b ! (i + 3)))"

definition rd64 :: "u8 list \<Rightarrow> nat \<Rightarrow> u64" where
  "rd64 b i = ucast (b ! i) OR push_bit 8 (ucast (b ! (i + 1)))
              OR push_bit 16 (ucast (b ! (i + 2))) OR push_bit 24 (ucast (b ! (i + 3)))
              OR push_bit 32 (ucast (b ! (i + 4))) OR push_bit 40 (ucast (b ! (i + 5)))
              OR push_bit 48 (ucast (b ! (i + 6))) OR push_bit 56 (ucast (b ! (i + 7)))"

text \<open>\<^verbatim>\<open>memcpy(b + off, bs, length bs)\<close> into a buffer that is long enough.\<close>

definition write_bytes :: "u8 list \<Rightarrow> nat \<Rightarrow> u8 list \<Rightarrow> u8 list" where
  "write_bytes b off bs = take off b @ bs @ drop (off + length bs) b"

definition zero_block :: block where
  "zero_block = replicate 4096 0"

text \<open>A zero-filled buffer of \<open>n\<close> blocks holding \<open>bytes\<close> at its start, cut into blocks.\<close>

definition blocks_of :: "nat \<Rightarrow> u8 list \<Rightarrow> block list" where
  "blocks_of n bytes =
     map (\<lambda>k. take 4096 (drop (4096 * k) (bytes @ replicate (4096 * n) 0))) [0..<n]"

section \<open>Inode map (imap.c)\<close>

record lsfs_imap_entry =
  ie_ino :: u32
  ie_version :: u32
  ie_location :: u64

text \<open>
  \<^verbatim>\<open>struct lsfs_imap\<close>. The list \<open>im_entries\<close> holds the first \<^verbatim>\<open>count\<close> slots of the
  \<^verbatim>\<open>entries\<close> array, so \<^verbatim>\<open>count\<close> is its length; the slots from \<^verbatim>\<open>count\<close> to
  \<^verbatim>\<open>capacity\<close> are never read by the source. Memory allocation is taken to succeed.
\<close>

record lsfs_imap =
  im_entries :: "lsfs_imap_entry list"
  im_capacity :: u32
  im_next_ino :: u32

definition im_count :: "lsfs_imap \<Rightarrow> u32" where
  "im_count m = of_nat (length (im_entries m))"

text \<open>
  The binary search of \<^verbatim>\<open>imap_find\<close>: \<^verbatim>\<open>left\<close>, \<^verbatim>\<open>right\<close> and \<^verbatim>\<open>mid\<close> are C ints;
  the result is the index found or -1.
\<close>

function imap_find_loop :: "lsfs_imap_entry list \<Rightarrow> u32 \<Rightarrow> int \<Rightarrow> int \<Rightarrow> int" where
  "imap_find_loop es i left right =
     (if left \<le> right then
        (if ie_ino (es ! nat (left + (right - left) div 2)) = i
           then left + (right - left) div 2
         else if ie_ino (es ! nat (left + (right - left) div 2)) < i
           then imap_find_loop es i (left + (right - left) div 2 + 1) right
         else imap_find_loop es i left (left + (right - left) div 2 - 1))
      else - 1)"
  by pat_completeness auto
termination
  by (relation "measure (\<lambda>(es, i, l, r). nat (r - l + 1))") auto

declare imap_find_loop.simps [simp del]

definition imap_find :: "lsfs_imap \<Rightarrow> u32 \<Rightarrow> int" where
  "imap_find m i =
     (if im_count m = 0 then - 1
      else imap_find_loop (im_entries m) i 0 (sint (im_count m) - 1))"

text \<open>The lower-bound search of \<^verbatim>\<open>imap_find_insert_pos\<close> (unsigned indices).\<close>

function imap_insert_pos_loop :: "lsfs_imap_entry list \<Rightarrow> u32 \<Rightarrow> nat \<Rightarrow> nat \<Rightarrow> nat" where
  "imap_insert_pos_loop es i left right =
     (if left < right then
        (if ie_ino (es ! (left + (right - left) div 2)) < i
           then imap_insert_pos_loop es i (left + (right - left) div 2 + 1) right
         else imap_insert_pos_loop es i left (left + (right - left) div 2))
      else left)"
  by pat_completeness auto
termination
  by (relation "measure (\<lambda>(es, i, l, r). r - l)") auto

declare imap_insert_pos_loop.simps [simp del]

definition imap_find_insert_pos :: "lsfs_imap \<Rightarrow> u32 \<Rightarrow> nat" where
  "imap_find_insert_pos m i =
     (if im_count m = 0 then 0
      else imap_insert_pos_loop (im_entries m) i 0 (unat (im_count m)))"

definition imap_grow :: "lsfs_imap \<Rightarrow> status \<times> lsfs_imap" where
  "imap_grow m =
     (let new_capacity = im_capacity m * 2 in
      if new_capacity > 65536 then
        (if (65536 :: u32) \<le> im_capacity m then (LSFS_ERR_NOSPC, m)
         else (LSFS_OK, m\<lparr>im_capacity := 65536\<rparr>))
      else (LSFS_OK, m\<lparr>im_capacity := new_capacity\<rparr>))"

text \<open>\<^verbatim>\<open>lsfs_imap_get\<close>: the location and version of an inode, or no-entry.\<close>

definition lsfs_imap_get :: "lsfs_imap \<Rightarrow> u32 \<Rightarrow> status \<times> u64 \<times> u32" where
  "lsfs_imap_get m i =
     (let idx = imap_find m i in
      if idx \<ge> 0 then (LSFS_OK, ie_location (im_entries m ! nat idx),
                         ie_version (im_entries m ! nat idx))
      else (LSFS_ERR_NOENT, 0, 0))"

text \<open>
  \<^verbatim>\<open>lsfs_imap_set\<close>: update in place (version incremented), or insert at the
  lower-bound position after shifting the tail one slot up with \<^verbatim>\<open>memmove\<close>.
\<close>

definition lsfs_imap_set :: "lsfs_imap \<Rightarrow> u32 \<Rightarrow> u64 \<Rightarrow> status \<times> lsfs_imap" where
  "lsfs_imap_set m i loc =
     (let idx = imap_find m i in
      if idx \<ge> 0 then
        (let e = im_entries m ! nat idx in
         (LSFS_OK, m\<lparr>im_entries := (im_entries m)
                     [nat idx := e\<lparr>ie_location := loc, ie_version := ie_version e + 1\<rparr>]\<rparr>))
      else
        (case (if im_count m \<ge> im_capacity m then imap_grow m else (LSFS_OK, m)) of
           (ret, m1) \<Rightarrow>
             if ret \<noteq> LSFS_OK then (ret, m1)
             else
               (let pos = imap_find_insert_pos m1 i in
                (LSFS_OK, m1\<lparr>im_entries :=
                   take pos (im_entries m1)
                   @ [\<lparr>ie_ino = i, ie_version = 1, ie_location = loc\<rparr>]
                   @ drop pos (im_entries m1)\<rparr>))))"

text \<open>
  \<^verbatim>\<open>memmove(&a[dst], &a[src], n * sizeof a[0])\<close> on an array given as a list.
\<close>

definition memmove_entries :: "'a list \<Rightarrow> nat \<Rightarrow> nat \<Rightarrow> nat \<Rightarrow> 'a list" where
  "memmove_entries a dst src n = take dst a @ take n (drop src a) @ drop (dst + n) a"

text \<open>
  \<^verbatim>\<open>lsfs_imap_remove\<close>: when the index found is not the last one, the tail is moved
  one slot down; then \<^verbatim>\<open>count\<close> is decremented, which drops the last slot.
\<close>

definition lsfs_imap_remove :: "lsfs_imap \<Rightarrow> u32 \<Rightarrow> status \<times> lsfs_imap" where
  "lsfs_imap_remove m i =
     (let idx = imap_find m i in
      if idx < 0 then (LSFS_ERR_NOENT, m)
      else
        (let es = im_entries m;
             count = length es;
             es1 = (if (word_of_int idx :: u32) < im_count m - 1
                    then memmove_entries es (nat idx) (nat idx + 1) (count - nat idx - 1)
                    else es)
         in (LSFS_OK, m\<lparr>im_entries := take (count - 1) es1\<rparr>)))"

text \<open>The order invariant of the map: strictly increasing inode numbers.\<close>

definition imap_sorted :: "lsfs_imap_entry list \<Rightarrow> bool" where
  "imap_sorted es = sorted_wrt (\<lambda>a b. ie_ino a < ie_ino b) es"

definition imap_example :: lsfs_imap where
  "imap_example =
     \<lparr>im_entries = [\<lparr>ie_ino = 1, ie_version = 1, ie_location = 1026\<rparr>,
                    \<lparr>ie_ino = 5, ie_version = 2, ie_location = 1030\<rparr>,
                    \<lparr>ie_ino = 9, ie_version = 1, ie_location = 1031\<rparr>],
      im_capacity = 1024, im_next_ino = 10\<rparr>"

section \<open>On-disk structures (ondisk.h)\<close>

definition LSFS_SEG_FREE :: u32 where "LSFS_SEG_FREE = 0"
definition LSFS_SEG_ACTIVE :: u32 where "LSFS_SEG_ACTIVE = 1"
definition LSFS_SEG_FULL :: u32 where "LSFS_SEG_FULL = 2"
definition LSFS_SEG_CLEANING :: u32 where "LSFS_SEG_CLEANING = 3"

definition LSFS_BLOCK_TYPE_DATA :: u8 where "LSFS_BLOCK_TYPE_DATA = 0"
definition LSFS_BLOCK_TYPE_INODE :: u8 where "LSFS_BLOCK_TYPE_INODE = 1"
definition LSFS_BLOCK_TYPE_INDIRECT :: u8 where "LSFS_BLOCK_TYPE_INDIRECT = 2"
definition LSFS_BLOCK_TYPE_DIRENT :: u8 where "LSFS_BLOCK_TYPE_DIRENT = 3"

text \<open>A byte array field of fixed size \<open>n\<close>.\<close>

definition fixed :: "nat \<Rightarrow> u8 list \<Rightarrow> u8 list" where
  "fixed n bs = take n (bs @ replicate n 0)"

text \<open>
  \<^verbatim>\<open>struct lsfs_superblock\<close>. The declared fields up to \<^verbatim>\<open>state\<close> take 120 bytes;
  the static assertion of the header fixes the structure at one block, so the reserved
  padding fills the block.
\<close>

record lsfs_superblock =
  sb_magic :: u32
  sb_version :: u32
  sb_block_size :: u32
  sb_segment_size :: u32
  sb_total_blocks :: u64
  sb_total_segments :: u64
  sb_inode_count :: u64
  sb_checkpoint_region0 :: u64
  sb_checkpoint_region1 :: u64
  sb_active_checkpoint :: u32
  sb_padding1 :: u32
  sb_log_head :: u64
  sb_free_segments :: u64
  sb_uuid :: "u8 list"
  sb_created_at :: u64
  sb_mounted_at :: u64
  sb_mount_count :: u32
  sb_state :: u32
  sb_reserved :: "u8 list"

definition superblock_bytes :: "lsfs_superblock \<Rightarrow> block" where
  "superblock_bytes s =
     le32 (sb_magic s) @ le32 (sb_version s) @ le32 (sb_block_size s) @ le32 (sb_segment_size s)
     @ le64 (sb_total_blocks s) @ le64 (sb_total_segments s) @ le64 (sb_inode_count s)
     @ le64 (sb_checkpoint_region0 s) @ le64 (sb_checkpoint_region1 s)
     @ le32 (sb_active_checkpoint s) @ le32 (sb_padding1 s)
     @ le64 (sb_log_head s) @ le64 (sb_free_segments s) @ fixed 16 (sb_uuid s)
     @ le64 (sb_created_at s) @ le64 (sb_mounted_at s)
     @ le32 (sb_mount_count s) @ le32 (sb_state s) @ fixed 3976 (sb_reserved s)"

text \<open>
  \<^verbatim>\<open>struct lsfs_inode\<close>. The static assertion and every user of the layout fix the
  record at 256 bytes, 16 records to a block; the fields up to \<^verbatim>\<open>generation\<close> take 248
  bytes, which leaves 8 bytes of reserved padding.
\<close>

record lsfs_inode =
  di_ino :: u32
  di_mode :: u32
  di_uid :: u32
  di_gid :: u32
  di_size :: u64
  di_blocks :: u64
  di_atime :: u64
  di_mtime :: u64
  di_ctime :: u64
  di_nlink :: u32
  di_flags :: u32
  di_direct :: "u64 list"
  di_indirect :: u64
  di_double_indirect :: u64
  di_symlink :: "u8 list"
  di_generation :: u64
  di_reserved :: "u8 list"

definition inode_bytes :: "lsfs_inode \<Rightarrow> u8 list" where
  "inode_bytes d =
     le32 (di_ino d) @ le32 (di_mode d) @ le32 (di_uid d) @ le32 (di_gid d)
     @ le64 (di_size d) @ le64 (di_blocks d) @ le64 (di_atime d) @ le64 (di_mtime d)
     @ le64 (di_ctime d) @ le32 (di_nlink d) @ le32 (di_flags d)
     @ concat (map (\<lambda>k. le64 (di_direct d ! k)) [0..<12])
     @ le64 (di_indirect d) @ le64 (di_double_indirect d)
     @ fixed 64 (di_symlink d) @ le64 (di_generation d) @ fixed 8 (di_reserved d)"

text \<open>The inode record found at byte offset \<open>off\<close> of a buffer.\<close>

definition inode_at :: "u8 list \<Rightarrow> nat \<Rightarrow> lsfs_inode" where
  "inode_at b off =
     \<lparr>di_ino = rd32 b off, di_mode = rd32 b (off + 4), di_uid = rd32 b (off + 8),
      di_gid = rd32 b (off + 12), di_size = rd64 b (off + 16), di_blocks = rd64 b (off + 24),
      di_atime = rd64 b (off + 32), di_mtime = rd64 b (off + 40), di_ctime = rd64 b (off + 48),
      di_nlink = rd32 b (off + 56), di_flags = rd32 b (off + 60),
      di_direct = map (\<lambda>k. rd64 b (off + 64 + 8 * k)) [0..<12],
      di_indirect = rd64 b (off + 160), di_double_indirect = rd64 b (off + 168),
      di_symlink = take 64 (drop (off + 176) b), di_generation = rd64 b (off + 240),
      di_reserved = take 8 (drop (off + 248) b)\<rparr>"

text \<open>\<^verbatim>\<open>struct lsfs_imap_entry\<close>, 16 bytes.\<close>

definition imap_entry_bytes :: "lsfs_imap_entry \<Rightarrow> u8 list" where
  "imap_entry_bytes e = le32 (ie_ino e) @ le32 (ie_version e) @ le64 (ie_location e)"

definition imap_entry_at :: "u8 list \<Rightarrow> nat \<Rightarrow> lsfs_imap_entry" where
  "imap_entry_at b off =
     \<lparr>ie_ino = rd32 b off, ie_version = rd32 b (off + 4), ie_location = rd64 b (off + 8)\<rparr>"

text \<open>\<^verbatim>\<open>struct lsfs_segment_header\<close>, 24 bytes, at the start of a segment's first block.\<close>

record lsfs_segment_header =
  sh_magic :: u32
  sh_segment_id :: u32
  sh_timestamp :: u64
  sh_block_count :: u32
  sh_checksum :: u32

definition segment_header_bytes :: "lsfs_segment_header \<Rightarrow> u8 list" where
  "segment_header_bytes h =
     le32 (sh_magic h) @ le32 (sh_segment_id h) @ le64 (sh_timestamp h)
     @ le32 (sh_block_count h) @ le32 (sh_checksum h)"

definition segment_header_at :: "u8 list \<Rightarrow> lsfs_segment_header" where
  "segment_header_at b =
     \<lparr>sh_magic = rd32 b 0, sh_segment_id = rd32 b 4, sh_timestamp = rd64 b 8,
      sh_block_count = rd32 b 16, sh_checksum = rd32 b 20\<rparr>"

text \<open>\<^verbatim>\<open>struct lsfs_block_info\<close>, 12 bytes; the summary's array starts at byte 24.\<close>

record lsfs_block_info =
  bi_ino :: u32
  bi_offset :: u32
  bi_type :: u8
  bi_reserved :: "u8 list"

definition block_info_bytes :: "lsfs_block_info \<Rightarrow> u8 list" where
  "block_info_bytes i = le32 (bi_ino i) @ le32 (bi_offset i) @ [bi_type i] @ fixed 3 (bi_reserved i)"

definition block_info_at :: "u8 list \<Rightarrow> nat \<Rightarrow> lsfs_block_info" where
  "block_info_at b off =
     \<lparr>bi_ino = rd32 b off, bi_offset = rd32 b (off + 4), bi_type = b ! (off + 8),
      bi_reserved = take 3 (drop (off + 9) b)\<rparr>"

definition zero_block_info :: lsfs_block_info where
  "zero_block_info = \<lparr>bi_ino = 0, bi_offset = 0, bi_type = 0, bi_reserved = [0, 0, 0]\<rparr>"

text \<open>The \<open>i\<close>-th descriptor of a segment summary (\<^verbatim>\<open>summary->blocks[i]\<close>).\<close>

definition summary_info :: "u8 list \<Rightarrow> nat \<Rightarrow> lsfs_block_info" where
  "summary_info b i = block_info_at b (24 + 12 * i)"

text \<open>\<^verbatim>\<open>struct lsfs_segment_usage\<close>, 24 bytes.\<close>

record lsfs_segment_usage =
  su_segment_id :: u32
  su_state :: u32
  su_live_blocks :: u32
  su_reserved :: u32
  su_timestamp :: u64

definition segment_usage_bytes :: "lsfs_segment_usage \<Rightarrow> u8 list" where
  "segment_usage_bytes u =
     le32 (su_segment_id u) @ le32 (su_state u) @ le32 (su_live_blocks u)
     @ le32 (su_reserved u) @ le64 (su_timestamp u)"

text \<open>\<^verbatim>\<open>struct lsfs_checkpoint_header\<close>, 48 bytes, at the start of a checkpoint region.\<close>

record lsfs_checkpoint_header =
  ch_magic :: u32
  ch_version :: u32
  ch_sequence :: u64
  ch_timestamp :: u64
  ch_log_head :: u64
  ch_imap_entries :: u32
  ch_segment_entries :: u32
  ch_checksum :: u32
  ch_complete :: u32

definition checkpoint_header_bytes :: "lsfs_checkpoint_header \<Rightarrow> u8 list" where
  "checkpoint_header_bytes h =
     le32 (ch_magic h) @ le32 (ch_version h) @ le64 (ch_sequence h) @ le64 (ch_timestamp h)
     @ le64 (ch_log_head h) @ le32 (ch_imap_entries h) @ le32 (ch_segment_entries h)
     @ le32 (ch_checksum h) @ le32 (ch_complete h)"

definition checkpoint_header_at :: "u8 list \<Rightarrow> lsfs_checkpoint_header" where
  "checkpoint_header_at b =
     \<lparr>ch_magic = rd32 b 0, ch_version = rd32 b 4, ch_sequence = rd64 b 8,
      ch_timestamp = rd64 b 16, ch_log_head = rd64 b 24, ch_imap_entries = rd32 b 32,
      ch_segment_entries = rd32 b 36, ch_checksum = rd32 b 40, ch_complete = rd32 b 44\<rparr>"

section \<open>In-memory state (lsfs.h)\<close>

text \<open>
  \<^verbatim>\<open>struct lsfs_inode_mem\<close>. The on-disk record is the first member, followed by
  \<^verbatim>\<open>disk_location\<close>, \<^verbatim>\<open>version\<close>, \<^verbatim>\<open>refcount\<close> and \<^verbatim>\<open>dirty\<close>. \<open>mi_tail\<close> stands for
  the bytes that follow the \<^verbatim>\<open>dirty\<close> flag in memory (padding, the lock, the list
  pointers and whatever the allocator placed behind the object); they matter because
  \<^verbatim>\<open>lsfs_inode_write\<close> hands the address of the 256-byte record to a routine that
  copies 4096 bytes from it.
\<close>

record lsfs_inode_mem =
  mi_disk_inode :: lsfs_inode
  mi_disk_location :: u64
  mi_version :: u32
  mi_refcount :: u32
  mi_dirty :: bool
  mi_tail :: "u8 list"

record lsfs_segment_buffer =
  sg_data :: "block list"
  sg_block_info :: "lsfs_block_info list"
  sg_segment_id :: u32
  sg_block_count :: u32

record lsfs_segment_table =
  st_entries :: "lsfs_segment_usage list"
  st_count :: u32
  st_free_count :: u32

text \<open>
  The operations that reached the backing file, in order: positional writes of whole
  blocks and \<^verbatim>\<open>fsync\<close> calls.
\<close>

datatype dev_op = DevWrite u64 "block list" | DevSync

text \<open>
  \<^verbatim>\<open>struct lsfs_context\<close>, without the thread and lock members (one thread of control
  is modelled). \<open>disk\<close> is the content of the backing file by block number and
  \<open>dev_trace\<close> the history of operations on it.
\<close>

record lsfs_context =
  disk_size :: u64
  disk :: "u64 \<Rightarrow> block"
  dev_trace :: "dev_op list"
  readonly :: bool
  sb :: lsfs_superblock
  icache :: "lsfs_inode_mem list"
  imap :: lsfs_imap
  segtable :: lsfs_segment_table
  segbuf :: lsfs_segment_buffer
  checkpoint_seq :: u64
  last_checkpoint :: u64
  writes_since_checkpoint :: u32

section \<open>Block I/O (io.c)\<close>

text \<open>
  The source computes \<^verbatim>\<open>offset = (off_t)block * 4096\<close>, fails when
  \<^verbatim>\<open>offset + size > (off_t)disk_size\<close>, and then calls \<^verbatim>\<open>pread\<close> or \<^verbatim>\<open>pwrite\<close>, which
  fail for a negative offset. Inside the file the transfer is taken to complete, and
  \<^verbatim>\<open>fsync\<close> to succeed.
\<close>

definition io_in_range :: "lsfs_context \<Rightarrow> u64 \<Rightarrow> nat \<Rightarrow> bool" where
  "io_in_range ctx start_block n =
     (\<not> sint (start_block * 4096) + int n * 4096 > sint (disk_size ctx)
      \<and> 0 \<le> sint (start_block * 4096))"

definition lsfs_read_block :: "lsfs_context \<Rightarrow> u64 \<Rightarrow> block option" where
  "lsfs_read_block ctx block_num =
     (if io_in_range ctx block_num 1 then Some (disk ctx block_num) else None)"

definition lsfs_read_blocks :: "lsfs_context \<Rightarrow> u64 \<Rightarrow> nat \<Rightarrow> block list option" where
  "lsfs_read_blocks ctx start_block n =
     (if io_in_range ctx start_block n
      then Some (map (\<lambda>k. disk ctx (start_block + of_nat k)) [0..<n]) else None)"

primrec write_disk :: "(u64 \<Rightarrow> block) \<Rightarrow> u64 \<Rightarrow> block list \<Rightarrow> (u64 \<Rightarrow> block)" where
  "write_disk d start [] = d"
| "write_disk d start (b # bs) = write_disk (d(start := b)) (start + 1) bs"

definition lsfs_write_block :: "lsfs_context \<Rightarrow> u64 \<Rightarrow> block \<Rightarrow> status \<times> lsfs_context" where
  "lsfs_write_block ctx block_num buf =
     (if readonly ctx then (LSFS_ERR_IO, ctx)
      else if \<not> io_in_range ctx block_num 1 then (LSFS_ERR_IO, ctx)
      else (LSFS_OK, ctx\<lparr>disk := (disk ctx)(block_num := buf),
                          dev_trace := dev_trace ctx @ [DevWrite block_num [buf]]\<rparr>))"

definition lsfs_write_blocks :: "lsfs_context \<Rightarrow> u64 \<Rightarrow> block list \<Rightarrow> status \<times> lsfs_context" where
  "lsfs_write_blocks ctx start_block bufs =
     (if readonly ctx then (LSFS_ERR_IO, ctx)
      else if \<not> io_in_range ctx start_block (length bufs) then (LSFS_ERR_IO, ctx)
      else (LSFS_OK, ctx\<lparr>disk := write_disk (disk ctx) start_block bufs,
                          dev_trace := dev_trace ctx @ [DevWrite start_block bufs]\<rparr>))"

definition lsfs_sync :: "lsfs_context \<Rightarrow> status \<times> lsfs_context" where
  "lsfs_sync ctx = (LSFS_OK, ctx\<lparr>dev_trace := dev_trace ctx @ [DevSync]\<rparr>)"

section \<open>Persisting and loading the inode map (imap.c)\<close>

text \<open>
  \<^verbatim>\<open>lsfs_imap_save\<close>: 256 entries to a block; the entries are copied into a zeroed
  buffer of \<^verbatim>\<open>DIV_ROUND_UP(count, 256)\<close> blocks (32-bit arithmetic), which is written
  in one call. More than 255 blocks is an out-of-space error.
\<close>

definition lsfs_imap_save :: "lsfs_context \<Rightarrow> u64 \<Rightarrow> status \<times> lsfs_context" where
  "lsfs_imap_save ctx start_block =
     (let blocks_needed = (im_count (imap ctx) + 256 - 1) div 256 in
      if blocks_needed > 256 - 1 then (LSFS_ERR_NOSPC, ctx)
      else lsfs_write_blocks ctx start_block
             (blocks_of (unat blocks_needed)
                (concat (map imap_entry_bytes (im_entries (imap ctx))))))"

text \<open>
  The scan of \<^verbatim>\<open>lsfs_imap_load\<close> for the next inode number to hand out, starting from
  \<^verbatim>\<open>LSFS_ROOT_INO + 1\<close>.
\<close>

definition imap_next_ino :: "lsfs_imap_entry list \<Rightarrow> u32" where
  "imap_next_ino es = foldl (\<lambda>n e. if ie_ino e \<ge> n then ie_ino e + 1 else n) 2 es"

definition lsfs_imap_load :: "lsfs_context \<Rightarrow> u64 \<Rightarrow> u32 \<Rightarrow> status \<times> lsfs_context" where
  "lsfs_imap_load ctx start_block entry_count =
     (let blocks_needed = (entry_count + 256 - 1) div 256 in
      case lsfs_read_blocks ctx start_block (unat blocks_needed) of
        None \<Rightarrow> (LSFS_ERR_IO, ctx)
      | Some bufs \<Rightarrow>
          (let es = map (\<lambda>k. imap_entry_at (concat bufs) (16 * k)) [0..<unat entry_count] in
           (LSFS_OK, ctx\<lparr>imap := \<lparr>im_entries = es,
                                   im_capacity = (if entry_count > im_capacity (imap ctx)
                                                  then entry_count else im_capacity (imap ctx)),
                                   im_next_ino = imap_next_ino es\<rparr>\<rparr>)))"

section \<open>Segment management (segment.c)\<close>

text \<open>The index of the first entry in state free, scanning from index \<open>i\<close>.\<close>

primrec first_free :: "lsfs_segment_usage list \<Rightarrow> nat \<Rightarrow> nat option" where
  "first_free [] i = None"
| "first_free (e # es) i = (if su_state e = LSFS_SEG_FREE then Some i else first_free es (Suc i))"

text \<open>
  \<^verbatim>\<open>lsfs_segment_alloc\<close>; the third component is the out-parameter \<^verbatim>\<open>*segment_id\<close>
  (left at 0 here when nothing is allocated). \<open>now\<close> is the value of \<^verbatim>\<open>time(NULL)\<close>.
\<close>

definition lsfs_segment_alloc :: "lsfs_context \<Rightarrow> u64 \<Rightarrow> status \<times> lsfs_context \<times> u32" where
  "lsfs_segment_alloc ctx now =
     (let table = segtable ctx in
      if st_free_count table = 0 then (LSFS_ERR_NOSPC, ctx, 0)
      else case first_free (take (unat (st_count table)) (st_entries table)) 0 of
             None \<Rightarrow> (LSFS_ERR_NOSPC, ctx, 0)
           | Some i \<Rightarrow>
               (let e = (st_entries table ! i)
                          \<lparr>su_state := LSFS_SEG_ACTIVE, su_segment_id := of_nat i,
                           su_live_blocks := 0, su_timestamp := now\<rparr>;
                    table1 = table\<lparr>st_entries := (st_entries table)[i := e],
                                   st_free_count := st_free_count table - 1\<rparr>
                in (LSFS_OK,
                    ctx\<lparr>segtable := table1,
                        sb := (sb ctx)\<lparr>sb_free_segments := ucast (st_free_count table1)\<rparr>\<rparr>,
                    of_nat i)))"

section \<open>Checkpoint emission (checkpoint.c)\<close>

definition CHECKPOINT_INTERVAL :: u32 where "CHECKPOINT_INTERVAL = 100"
definition CHECKPOINT_TIME_SEC :: u64 where "CHECKPOINT_TIME_SEC = 30"

definition lsfs_checkpoint_needed :: "lsfs_context \<Rightarrow> u64 \<Rightarrow> bool" where
  "lsfs_checkpoint_needed ctx now =
     (if writes_since_checkpoint ctx \<ge> CHECKPOINT_INTERVAL then True
      else if now - last_checkpoint ctx \<ge> CHECKPOINT_TIME_SEC then True
      else False)"

text \<open>The region a checkpoint is written to: the one the superblock does not name.\<close>

definition cp_region_of :: "lsfs_context \<Rightarrow> u32" where
  "cp_region_of ctx = sb_active_checkpoint (sb ctx) XOR 1"

definition checkpoint_block_of :: "lsfs_context \<Rightarrow> u64" where
  "checkpoint_block_of ctx =
     (if cp_region_of ctx = 0 then LSFS_CHECKPOINT0_START else LSFS_CHECKPOINT1_START)"

text \<open>The header prepared by \<^verbatim>\<open>lsfs_checkpoint_write\<close> once the sequence number is bumped.\<close>

definition checkpoint_header_of :: "lsfs_context \<Rightarrow> u64 \<Rightarrow> lsfs_checkpoint_header" where
  "checkpoint_header_of ctx now =
     \<lparr>ch_magic = LSFS_CHECKPOINT_MAGIC, ch_version = LSFS_VERSION,
      ch_sequence = checkpoint_seq ctx, ch_timestamp = now,
      ch_log_head = sb_log_head (sb ctx), ch_imap_entries = im_count (imap ctx),
      ch_segment_entries = st_count (segtable ctx), ch_checksum = 0, ch_complete = 0\<rparr>"

text \<open>The header copied into a zeroed one-block buffer.\<close>

definition header_block :: "lsfs_checkpoint_header \<Rightarrow> block" where
  "header_block h = write_bytes zero_block 0 (checkpoint_header_bytes h)"

text \<open>The segment table copied into a zeroed buffer of whole blocks.\<close>

definition segtable_blocks :: "lsfs_segment_table \<Rightarrow> block list" where
  "segtable_blocks table =
     (let seg_table_size = unat (st_count table) * 24;
          seg_blocks = unat (word_of_nat ((seg_table_size + 4096 - 1) div 4096) :: u32)
      in blocks_of seg_blocks
           (concat (map segment_usage_bytes (take (unat (st_count table)) (st_entries table)))))"

text \<open>
  The idiom \<^verbatim>\<open>ret = step(...); if (ret != LSFS_OK) return ret;\<close>: the rest of the
  function runs on the state the step left, and only when the step succeeded.
\<close>

definition on_ok ::
  "status \<times> lsfs_context \<Rightarrow> (lsfs_context \<Rightarrow> status \<times> lsfs_context) \<Rightarrow> status \<times> lsfs_context" where
  "on_ok r rest = (if fst r \<noteq> LSFS_OK then r else rest (snd r))"

text \<open>
  The body of \<^verbatim>\<open>lsfs_checkpoint_write\<close> that follows its flush of pending segment
  data: header with \<^verbatim>\<open>complete = 0\<close>, inode map, segment table (the result of that
  write is ignored by the source), sync, header with \<^verbatim>\<open>complete = 1\<close>, superblock
  with the new active region, and a final sync whose result is ignored.
\<close>

definition checkpoint_write_body :: "lsfs_context \<Rightarrow> u64 \<Rightarrow> status \<times> lsfs_context" where
  "checkpoint_write_body ctx now =
     (let cp_region = cp_region_of ctx;
          checkpoint_block = checkpoint_block_of ctx;
          ctx1 = ctx\<lparr>checkpoint_seq := checkpoint_seq ctx + 1\<rparr>;
          header = checkpoint_header_of ctx1 now
      in on_ok (lsfs_write_block ctx1 checkpoint_block (header_block header)) (\<lambda>ctx2.
         on_ok (lsfs_imap_save ctx2 (checkpoint_block + 1)) (\<lambda>ctx3.
         on_ok (lsfs_sync (snd (lsfs_write_blocks ctx3 LSFS_SEGTABLE_START
                                  (segtable_blocks (segtable ctx3))))) (\<lambda>ctx5.
         on_ok (lsfs_write_block ctx5 checkpoint_block
                  (header_block (header\<lparr>ch_complete := 1\<rparr>))) (\<lambda>ctx6.
         on_ok (lsfs_write_block (ctx6\<lparr>sb := (sb ctx6)\<lparr>sb_active_checkpoint := cp_region\<rparr>\<rparr>)
                  LSFS_SUPERBLOCK_BLOCK
                  (superblock_bytes ((sb ctx6)\<lparr>sb_active_checkpoint := cp_region\<rparr>))) (\<lambda>ctx8.
         (LSFS_OK, (snd (lsfs_sync ctx8))\<lparr>last_checkpoint := ch_timestamp header,
                                            writes_since_checkpoint := 0\<rparr>)))))))"

section \<open>Flushing the segment buffer (segment.c)\<close>

text \<open>
  The summary materialised into slot 0 of the staging buffer: the header, and the
  descriptors of slots 1 .. \<^verbatim>\<open>block_count - 1\<close> when they fit into the block.
\<close>

definition summary_block :: "lsfs_segment_buffer \<Rightarrow> u64 \<Rightarrow> block" where
  "summary_block sg now =
     (let b1 = write_bytes (sg_data sg ! 0) 0
                 (segment_header_bytes
                    \<lparr>sh_magic = LSFS_SEGMENT_MAGIC, sh_segment_id = sg_segment_id sg,
                     sh_timestamp = now, sh_block_count = sg_block_count sg, sh_checksum = 0\<rparr>);
          n = unat (sg_block_count sg - 1)
      in if 24 + n * 12 \<le> 4096
         then write_bytes b1 24 (concat (map block_info_bytes (take n (drop 1 (sg_block_info sg)))))
         else b1)"

text \<open>
  \<^verbatim>\<open>lsfs_segment_flush\<close>, second half: what follows the successful write of the
  segment. The table entry becomes full, the log head moves, the next segment is
  allocated (a failure only signals the cleaner and keeps the old segment id), the
  buffer is reset, and a checkpoint is written when one is due. For that the source
  calls \<^verbatim>\<open>lsfs_checkpoint_write\<close> and ignores its result; the buffer has just been
  reset to \<^verbatim>\<open>block_count = 1\<close>, so that call skips its own flush and runs
  \<open>checkpoint_write_body\<close>. \<open>sg\<close> is the buffer as it was flushed.
\<close>

definition segment_flush_finish ::
  "lsfs_context \<Rightarrow> lsfs_segment_buffer \<Rightarrow> u64 \<Rightarrow> lsfs_context" where
  "segment_flush_finish ctx1 sg now =
     (let table = segtable ctx1;
          e = (st_entries table ! unat (sg_segment_id sg))
                \<lparr>su_state := LSFS_SEG_FULL,
                 su_live_blocks := sg_block_count sg - 1,
                 su_timestamp := now\<rparr>;
          ctx2 = ctx1\<lparr>segtable := table\<lparr>st_entries :=
                          (st_entries table)[unat (sg_segment_id sg) := e]\<rparr>,
                      sb := (sb ctx1)\<lparr>sb_log_head :=
                          lsfs_segment_to_block (sg_segment_id sg) 0
                          + ucast (sg_block_count sg)\<rparr>\<rparr>
      in case lsfs_segment_alloc ctx2 now of
           (ret3, ctx3, new_segment_id) \<Rightarrow>
        (let sg3 = \<lparr>sg_data = replicate 1024 zero_block,
                    sg_block_info = replicate 1024 zero_block_info,
                    sg_segment_id = (if ret3 \<noteq> LSFS_OK then sg_segment_id sg
                                     else new_segment_id),
                    sg_block_count = 1\<rparr>;
             ctx4 = ctx3\<lparr>segbuf := sg3\<rparr>
         in if lsfs_checkpoint_needed ctx4 now
            then snd (checkpoint_write_body ctx4 now)
            else ctx4))"

text \<open>
  \<^verbatim>\<open>lsfs_segment_flush\<close>: nothing to do for a buffer that holds only the summary
  slot; otherwise the summary is materialised, the used blocks are written in one
  call, and a failed write is returned to the caller.
\<close>

definition lsfs_segment_flush :: "lsfs_context \<Rightarrow> u64 \<Rightarrow> status \<times> lsfs_context" where
  "lsfs_segment_flush ctx now =
     (let sg = segbuf ctx in
      if sg_block_count sg \<le> 1 then (LSFS_OK, ctx)
      else
        (let data = (sg_data sg)[0 := summary_block sg now];
             ctx0 = ctx\<lparr>segbuf := sg\<lparr>sg_data := data\<rparr>\<rparr>;
             start_block = lsfs_segment_to_block (sg_segment_id sg) 0
         in case lsfs_write_blocks ctx0 start_block (take (unat (sg_block_count sg)) data) of
              (ret, ctx1) \<Rightarrow>
           if ret \<noteq> LSFS_OK then (ret, ctx1)
           else (LSFS_OK, segment_flush_finish ctx1 sg now)))"

text \<open>\<^verbatim>\<open>lsfs_checkpoint_write\<close>: flush pending segment data, then emit the checkpoint.\<close>

definition lsfs_checkpoint_write :: "lsfs_context \<Rightarrow> u64 \<Rightarrow> status \<times> lsfs_context" where
  "lsfs_checkpoint_write ctx now =
     (if sg_block_count (segbuf ctx) > 1
      then on_ok (lsfs_segment_flush ctx now) (\<lambda>ctx1. checkpoint_write_body ctx1 now)
      else checkpoint_write_body ctx now)"

text \<open>
  \<^verbatim>\<open>lsfs_segment_append_block\<close>: the absolute address of the slot the block went
  to, or 0 when the flush of a full buffer failed. \<open>data\<close> is the 4096 bytes found at
  the source address.
\<close>

definition lsfs_segment_append_block ::
  "lsfs_context \<Rightarrow> u64 \<Rightarrow> u8 list \<Rightarrow> u32 \<Rightarrow> u32 \<Rightarrow> u8 \<Rightarrow> u64 \<times> lsfs_context" where
  "lsfs_segment_append_block ctx now data ino offset type =
     (case (if sg_block_count (segbuf ctx) \<ge> 1024 then lsfs_segment_flush ctx now
            else (LSFS_OK, ctx)) of
        (ret, ctx1) \<Rightarrow>
          if ret \<noteq> LSFS_OK then (0, ctx1)
          else
            (let sg = segbuf ctx1;
                 block_idx = sg_block_count sg;
                 sg1 = sg\<lparr>sg_data := (sg_data sg)[unat block_idx := take 4096 data],
                         sg_block_info := (sg_block_info sg)
                            [unat block_idx := \<lparr>bi_ino = ino, bi_offset = offset, bi_type = type,
                               bi_reserved = bi_reserved (sg_block_info sg ! unat block_idx)\<rparr>],
                         sg_block_count := block_idx + 1\<rparr>
             in (lsfs_segment_to_block (sg_segment_id sg) block_idx,
                 ctx1\<lparr>segbuf := sg1,
                      writes_since_checkpoint := writes_since_checkpoint ctx1 + 1\<rparr>)))"

section \<open>Dead-block accounting (gc.c)\<close>

definition lsfs_gc_mark_block_dead :: "lsfs_context \<Rightarrow> u64 \<Rightarrow> lsfs_context" where
  "lsfs_gc_mark_block_dead ctx block =
     (case lsfs_block_to_segment block of
        (segment_id, offset) \<Rightarrow>
          if segment_id \<ge> st_count (segtable ctx) then ctx
          else
            (let e = st_entries (segtable ctx) ! unat segment_id in
             if su_live_blocks e > 0
             then ctx\<lparr>segtable := (segtable ctx)\<lparr>st_entries :=
                        (st_entries (segtable ctx))
                          [unat segment_id := e\<lparr>su_live_blocks := su_live_blocks e - 1\<rparr>]\<rparr>\<rparr>
             else ctx))"

section \<open>Example states\<close>

text \<open>
  A 64 MiB image (14 segments) shortly after mount: segment 0 holds the root
  directory, segment 1 is the active segment, and the staging buffer is empty.
\<close>

definition example_sb :: lsfs_superblock where
  "example_sb =
     \<lparr>sb_magic = 0x4C534653, sb_version = 1, sb_block_size = 4096, sb_segment_size = 1024,
      sb_total_blocks = 16384, sb_total_segments = 14, sb_inode_count = 1,
      sb_checkpoint_region0 = 1, sb_checkpoint_region1 = 257, sb_active_checkpoint = 1,
      sb_padding1 = 0, sb_log_head = 1028, sb_free_segments = 12, sb_uuid = replicate 16 0,
      sb_created_at = 1000, sb_mounted_at = 1000, sb_mount_count = 1, sb_state = 1,
      sb_reserved = []\<rparr>"

definition example_segtable :: lsfs_segment_table where
  "example_segtable =
     \<lparr>st_entries =
        \<lparr>su_segment_id = 0, su_state = LSFS_SEG_FULL, su_live_blocks = 2, su_reserved = 0,
          su_timestamp = 1000\<rparr>
        # \<lparr>su_segment_id = 1, su_state = LSFS_SEG_ACTIVE, su_live_blocks = 0, su_reserved = 0,
            su_timestamp = 1000\<rparr>
        # map (\<lambda>i. \<lparr>su_segment_id = of_nat i, su_state = LSFS_SEG_FREE, su_live_blocks = 0,
                      su_reserved = 0, su_timestamp = 0\<rparr>) [2..<14],
      st_count = 14, st_free_count = 12\<rparr>"

definition example_ctx :: lsfs_context where
  "example_ctx =
     \<lparr>disk_size = 67108864, disk = (\<lambda>b. zero_block), dev_trace = [], readonly = False,
      sb = example_sb, icache = [],
      imap = \<lparr>im_entries = [\<lparr>ie_ino = 1, ie_version = 1, ie_location = 1026\<rparr>],
               im_capacity = 1024, im_next_ino = 2\<rparr>,
      segtable = example_segtable,
      segbuf = \<lparr>sg_data = replicate 1024 zero_block,
                 sg_block_info = replicate 1024 zero_block_info,
                 sg_segment_id = 1, sg_block_count = 1\<rparr>,
      checkpoint_seq = 2, last_checkpoint = 1000, writes_since_checkpoint = 0\<rparr>"

text \<open>The same state after one block has been appended to the active segment.\<close>

definition partial_segment_ctx :: lsfs_context where
  "partial_segment_ctx =
     example_ctx\<lparr>segbuf := (segbuf example_ctx)\<lparr>sg_block_count := 2\<rparr>,
                 writes_since_checkpoint := 1\<rparr>"

section \<open>The checkpoint protocol as a sequence of device operations\<close>

text \<open>
  The state in which \<^verbatim>\<open>lsfs_checkpoint_write\<close> starts its own writes: after the flush
  of pending segment data, when there is any.
\<close>

definition after_pending_flush :: "lsfs_context \<Rightarrow> u64 \<Rightarrow> lsfs_context" where
  "after_pending_flush ctx now =
     (if sg_block_count (segbuf ctx) > 1 then snd (lsfs_segment_flush ctx now) else ctx)"

text \<open>
  The operations the code issues for one checkpoint, from state \<open>c\<close>. The segment
  table write reaches the device only when it fits; its failure is not reported.
\<close>

definition checkpoint_ops :: "lsfs_context \<Rightarrow> u64 \<Rightarrow> dev_op list" where
  "checkpoint_ops c now =
     (let header = checkpoint_header_of (c\<lparr>checkpoint_seq := checkpoint_seq c + 1\<rparr>) now
      in [DevWrite (checkpoint_block_of c) [header_block header],
          DevWrite (checkpoint_block_of c + 1)
            (blocks_of (unat ((im_count (imap c) + 256 - 1) div 256))
               (concat (map imap_entry_bytes (im_entries (imap c)))))]
         @ (if io_in_range c LSFS_SEGTABLE_START (length (segtable_blocks (segtable c)))
            then [DevWrite LSFS_SEGTABLE_START (segtable_blocks (segtable c))] else [])
         @ [DevSync,
            DevWrite (checkpoint_block_of c) [header_block (header\<lparr>ch_complete := 1\<rparr>)],
            DevWrite LSFS_SUPERBLOCK_BLOCK
              [superblock_bytes ((sb c)\<lparr>sb_active_checkpoint := cp_region_of c\<rparr>)],
            DevSync])"

text \<open>
  The order as the specification states it, for comparison: a sync separates the
  rewrite of the header with \<^verbatim>\<open>complete = 1\<close> from the superblock write.
\<close>

definition claimed_checkpoint_ops :: "lsfs_context \<Rightarrow> u64 \<Rightarrow> dev_op list" where
  "claimed_checkpoint_ops c now =
     (let header = checkpoint_header_of (c\<lparr>checkpoint_seq := checkpoint_seq c + 1\<rparr>) now
      in [DevWrite (checkpoint_block_of c) [header_block header],
          DevWrite (checkpoint_block_of c + 1)
            (blocks_of (unat ((im_count (imap c) + 256 - 1) div 256))
               (concat (map imap_entry_bytes (im_entries (imap c))))),
          DevWrite LSFS_SEGTABLE_START (segtable_blocks (segtable c)),
          DevSync,
          DevWrite (checkpoint_block_of c) [header_block (header\<lparr>ch_complete := 1\<rparr>)],
          DevSync,
          DevWrite LSFS_SUPERBLOCK_BLOCK
            [superblock_bytes ((sb c)\<lparr>sb_active_checkpoint := cp_region_of c\<rparr>)],
          DevSync])"

section \<open>Loading a checkpoint and rolling forward (checkpoint.c)\<close>

text \<open>
  \<^verbatim>\<open>lsfs_read_block\<close> stores one block (4096 bytes) at \<^verbatim>\<open>buf\<close>, whatever the size of
  the object the caller passed; \<open>room\<close> is the size of that object. When the read takes
  place and the object is smaller than a block, the bytes that follow it in memory
  are overwritten, and from there on the C program has no defined behaviour: the
  model stops with the number of bytes stored out of bounds. A read refused by the
  range check stores nothing.
\<close>

datatype fault = Buffer_overrun nat

definition lsfs_read_block_into :: "lsfs_context \<Rightarrow> u64 \<Rightarrow> nat \<Rightarrow> fault + block option" where
  "lsfs_read_block_into ctx block_num room =
     (case lsfs_read_block ctx block_num of
        None \<Rightarrow> Inr None
      | Some b \<Rightarrow> if room < LSFS_BLOCK_SIZE then Inl (Buffer_overrun (LSFS_BLOCK_SIZE - room))
                  else Inr (Some b))"

text \<open>
  \<^verbatim>\<open>sizeof(struct lsfs_checkpoint_header)\<close> and \<^verbatim>\<open>sizeof(struct lsfs_segment_header)\<close>;
  both structures are packed.
\<close>

definition checkpoint_header_size :: nat where "checkpoint_header_size = 48"
definition segment_header_size :: nat where "segment_header_size = 24"

definition cp_blocks :: "nat \<Rightarrow> u64" where
  "cp_blocks i = (if i = 0 then LSFS_CHECKPOINT0_START else LSFS_CHECKPOINT1_START)"

text \<open>
  \<^verbatim>\<open>valid[i]\<close> together with \<^verbatim>\<open>header[i]\<close> in \<^verbatim>\<open>lsfs_checkpoint_load\<close>: the header
  block was read, its magic is the checkpoint magic and its completion marker is 1.
\<close>

definition header_valid :: "block option \<Rightarrow> lsfs_checkpoint_header option" where
  "header_valid r =
     (case r of
        None \<Rightarrow> None
      | Some b \<Rightarrow>
          if ch_magic (checkpoint_header_at b) = LSFS_CHECKPOINT_MAGIC
             \<and> ch_complete (checkpoint_header_at b) = 1
          then Some (checkpoint_header_at b) else None)"

text \<open>
  The variable \<^verbatim>\<open>best\<close> with the header it indexes: the region selected, or none when
  no header is valid.
\<close>

definition checkpoint_best ::
  "block option \<Rightarrow> block option \<Rightarrow> (nat \<times> lsfs_checkpoint_header) option" where
  "checkpoint_best r0 r1 =
     (case (header_valid r0, header_valid r1) of
        (Some h0, Some h1) \<Rightarrow> Some (if ch_sequence h0 > ch_sequence h1 then (0, h0) else (1, h1))
      | (Some h0, None) \<Rightarrow> Some (0, h0)
      | (None, Some h1) \<Rightarrow> Some (1, h1)
      | (None, None) \<Rightarrow> None)"

text \<open>The rest of \<^verbatim>\<open>lsfs_checkpoint_load\<close> once a region is selected.\<close>

definition load_region ::
  "lsfs_context \<Rightarrow> nat \<Rightarrow> lsfs_checkpoint_header \<Rightarrow> status \<times> lsfs_context" where
  "load_region ctx best h =
     on_ok (lsfs_imap_load ctx (cp_blocks best + 1) (ch_imap_entries h))
       (\<lambda>ctx1. (LSFS_OK,
                 ctx1\<lparr>checkpoint_seq := ch_sequence h,
                      last_checkpoint := ch_timestamp h,
                      sb := (sb ctx1)\<lparr>sb_log_head := ch_log_head h,
                                       sb_active_checkpoint := of_nat best\<rparr>\<rparr>))"

text \<open>
  \<^verbatim>\<open>lsfs_checkpoint_load\<close>. The two header blocks are read with
  \<^verbatim>\<open>lsfs_read_block(ctx, cp_blocks[i], &header[i])\<close>, where \<^verbatim>\<open>header\<close> is an array of two
  header structures on the stack, so the object each read is given has the size of
  one header.
\<close>

definition lsfs_checkpoint_load :: "lsfs_context \<Rightarrow> fault + status \<times> lsfs_context" where
  "lsfs_checkpoint_load ctx =
     (case lsfs_read_block_into ctx (cp_blocks 0) checkpoint_header_size of
        Inl f \<Rightarrow> Inl f
      | Inr r0 \<Rightarrow>
          (case lsfs_read_block_into ctx (cp_blocks 1) checkpoint_header_size of
             Inl f \<Rightarrow> Inl f
           | Inr r1 \<Rightarrow>
               Inr (case checkpoint_best r0 r1 of
                      None \<Rightarrow> (LSFS_ERR_CORRUPT, ctx)
                    | Some (best, h) \<Rightarrow> load_region ctx best h)))"

text \<open>
  The checks at the head of the roll-forward loop for segment \<open>seg\<close>: the first block
  is read into the local \<^verbatim>\<open>struct lsfs_segment_header seg_header\<close>, its magic must be
  the segment magic and its timestamp must not be before the checkpoint; then the
  block is read again into the block-sized array \<^verbatim>\<open>summary_block\<close>. The result is the
  summary block, or nothing when the loop stops here.
\<close>

definition replay_candidate :: "lsfs_context \<Rightarrow> u32 \<Rightarrow> fault + block option" where
  "replay_candidate ctx seg =
     (case lsfs_read_block_into ctx (lsfs_segment_to_block seg 0) segment_header_size of
        Inl f \<Rightarrow> Inl f
      | Inr None \<Rightarrow> Inr None
      | Inr (Some b) \<Rightarrow>
          if sh_magic (segment_header_at b) \<noteq> LSFS_SEGMENT_MAGIC then Inr None
          else if sh_timestamp (segment_header_at b) < last_checkpoint ctx then Inr None
          else lsfs_read_block_into ctx (lsfs_segment_to_block seg 0) LSFS_BLOCK_SIZE)"

text \<open>
  The number of descriptors the loop visits: \<^verbatim>\<open>block_count - 1\<close> (32-bit), capped at
  the number that fit into the summary block behind the header.
\<close>

definition replay_entries :: "block \<Rightarrow> nat" where
  "replay_entries b =
     (let max_entries = (4096 - 24) div 12;
          num_entries = unat (sh_block_count (segment_header_at b) - 1)
      in if num_entries > max_entries then max_entries else num_entries)"

text \<open>One step of the descriptor loop; the result of \<^verbatim>\<open>lsfs_imap_set\<close> is ignored.\<close>

definition replay_info :: "block \<Rightarrow> u32 \<Rightarrow> lsfs_imap \<Rightarrow> nat \<Rightarrow> lsfs_imap" where
  "replay_info b seg m i =
     (if bi_type (summary_info b i) = LSFS_BLOCK_TYPE_INODE \<and> bi_ino (summary_info b i) > 0
      then snd (lsfs_imap_set m (bi_ino (summary_info b i))
                  (lsfs_segment_to_block seg 0 + of_nat i + 1))
      else m)"

text \<open>The body of the roll-forward loop for an accepted segment with summary \<open>b\<close>.\<close>

definition replay_segment :: "lsfs_context \<Rightarrow> u32 \<Rightarrow> block \<Rightarrow> lsfs_context" where
  "replay_segment ctx seg b =
     (let h = segment_header_at b;
          table = segtable ctx;
          e = (st_entries table ! unat seg)
                \<lparr>su_state := LSFS_SEG_FULL, su_live_blocks := sh_block_count h - 1,
                 su_timestamp := sh_timestamp h\<rparr>
      in ctx\<lparr>imap := foldl (replay_info b seg) (imap ctx) [0..<replay_entries b],
              sb := (sb ctx)\<lparr>sb_log_head :=
                       lsfs_segment_to_block seg 0 + ucast (sh_block_count h)\<rparr>,
              segtable := table\<lparr>st_entries := (st_entries table)[unat seg := e],
                               st_free_count := (if st_free_count table > 0
                                                 then st_free_count table - 1
                                                 else st_free_count table)\<rparr>\<rparr>)"

text \<open>
  The loop \<^verbatim>\<open>for (seg = segment_id; seg < total_segments; seg++)\<close>. The counter is 32
  bits wide and the bound 64, so on an image that claims 2^32 or more segments the
  loop need not end; not returning is the value \<open>None\<close>.
\<close>

partial_function (option) recover_scan ::
  "lsfs_context \<Rightarrow> u32 \<Rightarrow> (fault + lsfs_context) option" where
  "recover_scan ctx seg =
     (if ucast seg < sb_total_segments (sb ctx) then
        (case replay_candidate ctx seg of
           Inl f \<Rightarrow> Some (Inl f)
         | Inr None \<Rightarrow> Some (Inr ctx)
         | Inr (Some b) \<Rightarrow> recover_scan (replay_segment ctx seg b) (seg + 1))
      else Some (Inr ctx))"

text \<open>\<^verbatim>\<open>lsfs_checkpoint_recover\<close>: load, roll forward from the segment of the log head, checkpoint.\<close>

definition lsfs_checkpoint_recover ::
  "lsfs_context \<Rightarrow> u64 \<Rightarrow> (fault + status \<times> lsfs_context) option" where
  "lsfs_checkpoint_recover ctx now =
     (case lsfs_checkpoint_load ctx of
        Inl f \<Rightarrow> Some (Inl f)
      | Inr (ret, ctx1) \<Rightarrow>
          if ret \<noteq> LSFS_OK then Some (Inr (ret, ctx1))
          else
            (case recover_scan ctx1 (fst (lsfs_block_to_segment (sb_log_head (sb ctx1)))) of
               None \<Rightarrow> None
             | Some (Inl f) \<Rightarrow> Some (Inl f)
             | Some (Inr ctx2) \<Rightarrow> Some (Inr (lsfs_checkpoint_write ctx2 now))))"

text \<open>
  An image whose two checkpoint regions both hold complete headers, the one in region
  1 with the higher sequence number.
\<close>

definition older_header :: lsfs_checkpoint_header where
  "older_header =
     \<lparr>ch_magic = LSFS_CHECKPOINT_MAGIC, ch_version = 1, ch_sequence = 5, ch_timestamp = 900,
      ch_log_head = 1028, ch_imap_entries = 1, ch_segment_entries = 14, ch_checksum = 0,
      ch_complete = 1\<rparr>"

definition newer_header :: lsfs_checkpoint_header where
  "newer_header = older_header\<lparr>ch_sequence := 6, ch_timestamp := 1000\<rparr>"

definition both_valid_ctx :: lsfs_context where
  "both_valid_ctx =
     example_ctx\<lparr>disk := (\<lambda>b. zero_block)
        (1 := header_block older_header,
         2 := hd (blocks_of 1 (imap_entry_bytes \<lparr>ie_ino = 1, ie_version = 1, ie_location = 1026\<rparr>)),
         257 := header_block newer_header,
         258 := hd (blocks_of 1 (imap_entry_bytes \<lparr>ie_ino = 1, ie_version = 1, ie_location = 1026\<rparr>)))\<rparr>"

text \<open>
  The same image with the summary of segment 0 as the formatter writes it: three
  slots used, the root inode in slot 1 and the root directory block in slot 2.
\<close>

definition root_summary :: block where
  "root_summary =
     segment_header_bytes
       \<lparr>sh_magic = LSFS_SEGMENT_MAGIC, sh_segment_id = 0, sh_timestamp = 1000,
        sh_block_count = 3, sh_checksum = 0\<rparr>
     @ block_info_bytes \<lparr>bi_ino = 1, bi_offset = 0, bi_type = LSFS_BLOCK_TYPE_INODE,
                          bi_reserved = [0, 0, 0]\<rparr>
     @ block_info_bytes \<lparr>bi_ino = 1, bi_offset = 0, bi_type = LSFS_BLOCK_TYPE_DIRENT,
                          bi_reserved = [0, 0, 0]\<rparr>
     @ replicate 4048 0"

definition recover_ctx :: lsfs_context where
  "recover_ctx = both_valid_ctx\<lparr>disk := (disk both_valid_ctx)(1025 := root_summary)\<rparr>"

section \<open>Inode operations (inode.c)\<close>

text \<open>
  The 4096 bytes of memory that start at the address of the on-disk record inside a
  \<^verbatim>\<open>struct lsfs_inode_mem\<close>: the 256-byte record, the members \<^verbatim>\<open>disk_location\<close>,
  \<^verbatim>\<open>version\<close>, \<^verbatim>\<open>refcount\<close> and \<^verbatim>\<open>dirty\<close> that follow it, and the bytes behind them
  (\<open>mi_tail\<close>, continued with zero bytes where the model is given fewer).
\<close>

definition inode_mem_image :: "lsfs_inode_mem \<Rightarrow> u8 list" where
  "inode_mem_image m =
     take 4096 (inode_bytes (mi_disk_inode m) @ le64 (mi_disk_location m) @ le32 (mi_version m)
                @ le32 (mi_refcount m) @ [if mi_dirty m then 1 else 0] @ mi_tail m
                @ replicate 4096 0)"

text \<open>
  \<^verbatim>\<open>lsfs_inode_write\<close>. The inode is passed and returned by value. The source passes
  \<^verbatim>\<open>&inode->disk_inode\<close> to \<^verbatim>\<open>lsfs_segment_append_block\<close>, which copies one block
  from that address. The result of \<^verbatim>\<open>lsfs_imap_set\<close> is ignored.
\<close>

definition lsfs_inode_write ::
  "lsfs_context \<Rightarrow> lsfs_inode_mem \<Rightarrow> u64 \<Rightarrow> status \<times> lsfs_context \<times> lsfs_inode_mem" where
  "lsfs_inode_write ctx inode now =
     (if \<not> mi_dirty inode then (LSFS_OK, ctx, inode)
      else
        (let ctx1 = (if mi_disk_location inode \<noteq> 0
                     then lsfs_gc_mark_block_dead ctx (mi_disk_location inode) else ctx)
         in case lsfs_segment_append_block ctx1 now (inode_mem_image inode)
                   (di_ino (mi_disk_inode inode)) 0 LSFS_BLOCK_TYPE_INODE of
              (new_location, ctx2) \<Rightarrow>
                if new_location = 0 then (LSFS_ERR_NOSPC, ctx2, inode)
                else (LSFS_OK,
                      ctx2\<lparr>imap := snd (lsfs_imap_set (imap ctx2)
                                           (di_ino (mi_disk_inode inode)) new_location)\<rparr>,
                      inode\<lparr>mi_disk_location := new_location,
                            mi_version := mi_version inode + 1,
                            mi_dirty := False\<rparr>)))"

text \<open>An entry of a block of 512 block pointers (an indirect block).\<close>

definition indirect_entry :: "block \<Rightarrow> u64 \<Rightarrow> u64" where
  "indirect_entry b k = rd64 b (8 * unat k)"

text \<open>
  \<^verbatim>\<open>lsfs_inode_read_block\<close>: the status and the buffer. A zero pointer reads as a
  zero-filled block; every other block is read from the backing file.
\<close>

definition lsfs_inode_read_block ::
  "lsfs_context \<Rightarrow> lsfs_inode_mem \<Rightarrow> u64 \<Rightarrow> status \<times> block" where
  "lsfs_inode_read_block ctx inode block_idx =
     (let d = mi_disk_inode inode;
          finish = (\<lambda>block_addr.
                      if block_addr = 0 then (LSFS_OK, zero_block)
                      else case lsfs_read_block ctx block_addr of
                             None \<Rightarrow> (LSFS_ERR_IO, zero_block)
                           | Some b \<Rightarrow> (LSFS_OK, b))
      in if block_idx < 12 then finish (di_direct d ! unat block_idx)
         else if block_idx < 12 + 512 then
           (if di_indirect d = 0 then (LSFS_OK, zero_block)
            else case lsfs_read_block ctx (di_indirect d) of
                   None \<Rightarrow> (LSFS_ERR_IO, zero_block)
                 | Some indirect_block \<Rightarrow> finish (indirect_entry indirect_block (block_idx - 12)))
         else if block_idx < 12 + 512 + 512 * 512 then
           (if di_double_indirect d = 0 then (LSFS_OK, zero_block)
            else case lsfs_read_block ctx (di_double_indirect d) of
                   None \<Rightarrow> (LSFS_ERR_IO, zero_block)
                 | Some d_indirect_block \<Rightarrow>
                     (let idx = block_idx - 12 - 512;
                          d_idx = idx div 512;
                          i_idx = idx mod 512
                      in if indirect_entry d_indirect_block d_idx = 0 then (LSFS_OK, zero_block)
                         else case lsfs_read_block ctx (indirect_entry d_indirect_block d_idx) of
                                None \<Rightarrow> (LSFS_ERR_IO, zero_block)
                              | Some indirect_block \<Rightarrow>
                                  finish (indirect_entry indirect_block i_idx)))
         else (LSFS_ERR_INVAL, zero_block))"

text \<open>
  \<^verbatim>\<open>lsfs_inode_write_block\<close>: the new block is appended to the segment buffer and
  the inode's pointer is redirected to its address. Double-indirect indices are
  refused after the data block has been appended.
\<close>

definition lsfs_inode_write_block ::
  "lsfs_context \<Rightarrow> lsfs_inode_mem \<Rightarrow> u64 \<Rightarrow> block \<Rightarrow> u64
     \<Rightarrow> status \<times> lsfs_context \<times> lsfs_inode_mem" where
  "lsfs_inode_write_block ctx inode block_idx buf now =
     (let d = mi_disk_inode inode;
          old_addr = (if block_idx < 12 then di_direct d ! unat block_idx else 0);
          ctx1 = (if old_addr \<noteq> 0 then lsfs_gc_mark_block_dead ctx old_addr else ctx)
      in case lsfs_segment_append_block ctx1 now buf (di_ino d) (ucast block_idx)
                LSFS_BLOCK_TYPE_DATA of
           (new_addr, ctx2) \<Rightarrow>
        if new_addr = 0 then (LSFS_ERR_NOSPC, ctx2, inode)
        else
          (let done = (\<lambda>ctx' d'. (LSFS_OK, ctx',
                         inode\<lparr>mi_disk_inode := d'\<lparr>di_blocks := max (di_blocks d') (block_idx + 1)\<rparr>,
                               mi_dirty := True\<rparr>))
           in if block_idx < 12
                then done ctx2 (d\<lparr>di_direct := (di_direct d)[unat block_idx := new_addr]\<rparr>)
              else if block_idx < 12 + 512 then
                (case (if di_indirect d = 0 then Some (zero_block, ctx2)
                       else case lsfs_read_block ctx2 (di_indirect d) of
                              None \<Rightarrow> None
                            | Some b \<Rightarrow> Some (b, lsfs_gc_mark_block_dead ctx2 (di_indirect d))) of
                   None \<Rightarrow> (LSFS_ERR_IO, ctx2, inode)
                 | Some (indirect_block, ctx3) \<Rightarrow>
                     (case lsfs_segment_append_block ctx3 now
                             (write_bytes indirect_block (8 * unat (block_idx - 12)) (le64 new_addr))
                             (di_ino d) 0 LSFS_BLOCK_TYPE_INDIRECT of
                        (new_indirect, ctx4) \<Rightarrow>
                          if new_indirect = 0 then (LSFS_ERR_NOSPC, ctx4, inode)
                          else done ctx4 (d\<lparr>di_indirect := new_indirect\<rparr>)))
              else (LSFS_ERR_NOSPC, ctx2, inode)))"

section \<open>Inode cache (inode.c)\<close>

definition LSFS_INODE_CACHE_SIZE :: nat where "LSFS_INODE_CACHE_SIZE = 1024"

text \<open>
  The cache is the list of its entries in LRU order, least recently used first; its
  length is \<^verbatim>\<open>cache->count\<close>. An inode number is taken to have at most one entry, so
  the hash chains are not modelled.
\<close>

definition icache_find :: "lsfs_context \<Rightarrow> u32 \<Rightarrow> lsfs_inode_mem option" where
  "icache_find ctx ino = find (\<lambda>e. di_ino (mi_disk_inode e) = ino) (icache ctx)"

text \<open>
  \<^verbatim>\<open>inode_cache_evict\<close>: while the cache is full, the least recently used entry
  without references is written back when dirty and dropped.
\<close>

function inode_cache_evict :: "lsfs_context \<Rightarrow> u64 \<Rightarrow> lsfs_context" where
  "inode_cache_evict ctx now =
     (if length (icache ctx) \<ge> LSFS_INODE_CACHE_SIZE then
        (case find (\<lambda>e. \<not> mi_refcount e > 0) (icache ctx) of
           None \<Rightarrow> ctx
         | Some victim \<Rightarrow>
             inode_cache_evict
               ((if mi_dirty victim then fst (snd (lsfs_inode_write ctx victim now)) else ctx)
                  \<lparr>icache := remove1 victim (icache ctx)\<rparr>) now)
      else ctx)"
  by pat_completeness auto
termination
proof (relation "measure (\<lambda>(ctx, now). length (icache ctx))")
  show "wf (measure (\<lambda>(ctx, now). length (icache ctx)))" by simp
next
  fix ctx :: lsfs_context and now :: u64 and victim
  assume "find (\<lambda>e. \<not> mi_refcount e > 0) (icache ctx) = Some victim"
  hence "victim \<in> set (icache ctx)" by (auto simp: find_Some_iff)
  hence "length (remove1 victim (icache ctx)) < length (icache ctx)"
    by (simp add: length_remove1) (cases "icache ctx", auto)
  thus "(((if mi_dirty victim then fst (snd (lsfs_inode_write ctx victim now)) else ctx)
            \<lparr>icache := remove1 victim (icache ctx)\<rparr>, now), ctx, now)
        \<in> measure (\<lambda>(ctx, now). length (icache ctx))"
    by simp
qed

declare inode_cache_evict.simps [simp del]

text \<open>
  \<^verbatim>\<open>lsfs_inode_get\<close>: a hit bumps the reference count and moves the entry to the
  most recently used end. A miss looks the inode up in the inode map, makes room,
  reads the block at the mapped location, takes the record in slot \<^verbatim>\<open>ino % 16\<close> and
  rejects it unless it carries the inode number asked for. The result is the entry
  (nothing for \<^verbatim>\<open>NULL\<close>) and the new state.
\<close>

definition lsfs_inode_get ::
  "lsfs_context \<Rightarrow> u32 \<Rightarrow> u64 \<Rightarrow> lsfs_inode_mem option \<times> lsfs_context" where
  "lsfs_inode_get ctx ino now =
     (case icache_find ctx ino of
        Some e \<Rightarrow>
          (let e1 = e\<lparr>mi_refcount := mi_refcount e + 1\<rparr>
           in (Some e1, ctx\<lparr>icache := remove1 e (icache ctx) @ [e1]\<rparr>))
      | None \<Rightarrow>
          (case lsfs_imap_get (imap ctx) ino of
             (ret, location, version) \<Rightarrow>
               if ret \<noteq> LSFS_OK then (None, ctx)
               else
                 (let ctx1 = inode_cache_evict ctx now in
                  case lsfs_read_block ctx1 location of
                    None \<Rightarrow> (None, ctx1)
                  | Some b \<Rightarrow>
                      (let d = inode_at b (unat (ino mod 16) * 256) in
                       if di_ino d \<noteq> ino then (None, ctx1)
                       else
                         (let e = \<lparr>mi_disk_inode = d, mi_disk_location = location,
                                   mi_version = version, mi_refcount = 1, mi_dirty = False,
                                   mi_tail = []\<rparr>
                          in (Some e, ctx1\<lparr>icache := icache ctx1 @ [e]\<rparr>))))))"

text \<open>Changing the cached entry of an inode through the pointer the caller holds.\<close>

definition icache_modify ::
  "lsfs_context \<Rightarrow> u32 \<Rightarrow> (lsfs_inode_mem \<Rightarrow> lsfs_inode_mem) \<Rightarrow> lsfs_context" where
  "icache_modify ctx ino f =
     ctx\<lparr>icache := map (\<lambda>e. if di_ino (mi_disk_inode e) = ino then f e else e) (icache ctx)\<rparr>"

text \<open>\<^verbatim>\<open>lsfs_inode_put\<close> on a cached entry.\<close>

definition lsfs_inode_put :: "lsfs_inode_mem \<Rightarrow> lsfs_inode_mem" where
  "lsfs_inode_put e = (if mi_refcount e > 0 then e\<lparr>mi_refcount := mi_refcount e - 1\<rparr> else e)"

section \<open>Cleaning a segment (gc.c)\<close>

text \<open>Setting the state of a segment table entry.\<close>

definition set_segment_state :: "lsfs_context \<Rightarrow> u32 \<Rightarrow> u32 \<Rightarrow> lsfs_context" where
  "set_segment_state ctx segment_id s =
     ctx\<lparr>segtable := (segtable ctx)\<lparr>st_entries :=
            (st_entries (segtable ctx))
              [unat segment_id := (st_entries (segtable ctx) ! unat segment_id)\<lparr>su_state := s\<rparr>]\<rparr>\<rparr>"

text \<open>
  One round of the relocation loop of \<^verbatim>\<open>lsfs_gc_clean_segment\<close>, for slot \<open>i\<close> of the
  segment read into \<open>data\<close>. The descriptor is \<^verbatim>\<open>summary->blocks[i - 1]\<close>, addressed
  in the whole segment image. An inode block is live when the inode map still points
  at it; a data block when the direct pointer of its inode does. A status other than
  \<^verbatim>\<open>LSFS_OK\<close> is the \<^verbatim>\<open>break\<close> after a failed append.
\<close>

definition gc_relocate_block ::
  "lsfs_context \<Rightarrow> u64 \<Rightarrow> u64 \<Rightarrow> block list \<Rightarrow> nat \<Rightarrow> status \<times> lsfs_context" where
  "gc_relocate_block ctx now seg_start data i =
     (let info = summary_info (concat data) (i - 1) in
      if bi_ino info = 0 then (LSFS_OK, ctx)
      else if bi_type info = LSFS_BLOCK_TYPE_INODE then
        (case lsfs_imap_get (imap ctx) (bi_ino info) of
           (ret, current_loc, version) \<Rightarrow>
             if ret = LSFS_OK \<and> current_loc = seg_start + of_nat i then
               (case lsfs_segment_append_block ctx now (data ! i) (bi_ino info) (bi_offset info)
                       (bi_type info) of
                  (new_loc, ctx1) \<Rightarrow>
                    if new_loc = 0 then (LSFS_ERR_NOSPC, ctx1)
                    else (LSFS_OK,
                          ctx1\<lparr>imap := snd (lsfs_imap_set (imap ctx1) (bi_ino info) new_loc)\<rparr>))
             else (LSFS_OK, ctx))
      else if bi_type info = LSFS_BLOCK_TYPE_DATA then
        (case lsfs_inode_get ctx (bi_ino info) now of
           (None, ctx1) \<Rightarrow> (LSFS_OK, ctx1)
         | (Some inode, ctx1) \<Rightarrow>
             if bi_offset info < 12
                \<and> di_direct (mi_disk_inode inode) ! unat (bi_offset info) = seg_start + of_nat i
             then
               (case lsfs_segment_append_block ctx1 now (data ! i) (bi_ino info) (bi_offset info)
                       (bi_type info) of
                  (new_loc, ctx2) \<Rightarrow>
                    if new_loc = 0
                    then (LSFS_ERR_NOSPC, icache_modify ctx2 (bi_ino info) lsfs_inode_put)
                    else (LSFS_OK,
                          icache_modify ctx2 (bi_ino info)
                            (\<lambda>e. lsfs_inode_put
                                   (e\<lparr>mi_disk_inode := (mi_disk_inode e)\<lparr>di_direct :=
                                          (di_direct (mi_disk_inode e))
                                            [unat (bi_offset info) := new_loc]\<rparr>,
                                       mi_dirty := True\<rparr>))))
             else (LSFS_OK, icache_modify ctx1 (bi_ino info) lsfs_inode_put))
      else (LSFS_OK, ctx))"

text \<open>The loop over the slots, left at the first failed append.\<close>

primrec gc_relocate ::
  "lsfs_context \<Rightarrow> u64 \<Rightarrow> u64 \<Rightarrow> block list \<Rightarrow> nat list \<Rightarrow> status \<times> lsfs_context" where
  "gc_relocate ctx now seg_start data [] = (LSFS_OK, ctx)"
| "gc_relocate ctx now seg_start data (i # rest) =
     (case gc_relocate_block ctx now seg_start data i of
        (ret, ctx1) \<Rightarrow>
          if ret \<noteq> LSFS_OK then (ret, ctx1)
          else gc_relocate ctx1 now seg_start data rest)"

text \<open>Returning a segment to the free pool, as \<^verbatim>\<open>lsfs_gc_clean_segment\<close> does inline.\<close>

definition gc_free_segment :: "lsfs_context \<Rightarrow> u32 \<Rightarrow> bool \<Rightarrow> lsfs_context" where
  "gc_free_segment ctx segment_id zero_live =
     (let table = segtable ctx;
          e = st_entries table ! unat segment_id;
          e1 = (if zero_live then e\<lparr>su_state := LSFS_SEG_FREE, su_live_blocks := 0\<rparr>
                else e\<lparr>su_state := LSFS_SEG_FREE\<rparr>);
          table1 = table\<lparr>st_entries := (st_entries table)[unat segment_id := e1],
                         st_free_count := st_free_count table + 1\<rparr>
      in ctx\<lparr>segtable := table1,
              sb := (sb ctx)\<lparr>sb_free_segments := ucast (st_free_count table1)\<rparr>\<rparr>)"

text \<open>
  \<^verbatim>\<open>lsfs_gc_clean_segment\<close>. The segment must still be full; without live blocks it
  is freed at once. Otherwise it is marked cleaning and read whole; a failed read or
  a summary without the segment magic puts the state back to full and returns the
  error. After the relocation loop the segment is freed and the loop's status returned.
\<close>

definition lsfs_gc_clean_segment :: "lsfs_context \<Rightarrow> u32 \<Rightarrow> u64 \<Rightarrow> status \<times> lsfs_context" where
  "lsfs_gc_clean_segment ctx segment_id now =
     (if segment_id \<ge> st_count (segtable ctx) then (LSFS_ERR_INVAL, ctx)
      else if su_state (st_entries (segtable ctx) ! unat segment_id) \<noteq> LSFS_SEG_FULL
        then (LSFS_OK, ctx)
      else if su_live_blocks (st_entries (segtable ctx) ! unat segment_id) = 0
        then (LSFS_OK, gc_free_segment ctx segment_id False)
      else
        (let ctx1 = set_segment_state ctx segment_id LSFS_SEG_CLEANING;
             seg_start = lsfs_segment_to_block segment_id 0
         in case lsfs_read_blocks ctx1 seg_start 1024 of
              None \<Rightarrow> (LSFS_ERR_IO, set_segment_state ctx1 segment_id LSFS_SEG_FULL)
            | Some data \<Rightarrow>
                if sh_magic (segment_header_at (concat data)) \<noteq> LSFS_SEGMENT_MAGIC
                then (LSFS_ERR_CORRUPT, set_segment_state ctx1 segment_id LSFS_SEG_FULL)
                else
                  (let num_blocks =
                         (if sh_block_count (segment_header_at (concat data)) > 1024 then 1024
                          else unat (sh_block_count (segment_header_at (concat data))))
                   in case gc_relocate ctx1 now seg_start data [1..<num_blocks] of
                        (ret, ctx2) \<Rightarrow> (ret, gc_free_segment ctx2 segment_id True))))"

section \<open>A new inode on its way to the log\<close>

text \<open>
  The in-memory inode that \<^verbatim>\<open>lsfs_inode_alloc\<close> sets up for inode number 17, a regular
  file: zeroed by \<^verbatim>\<open>calloc\<close>, no location on disk yet, version 0, one reference, dirty.
\<close>

definition new_file_inode :: lsfs_inode_mem where
  "new_file_inode =
     \<lparr>mi_disk_inode =
        \<lparr>di_ino = 17, di_mode = 0x81A4, di_uid = 1000, di_gid = 1000, di_size = 0,
         di_blocks = 0, di_atime = 1005, di_mtime = 1005, di_ctime = 1005, di_nlink = 1,
         di_flags = 0, di_direct = replicate 12 0, di_indirect = 0, di_double_indirect = 0,
         di_symlink = replicate 64 0, di_generation = 0, di_reserved = replicate 8 0\<rparr>,
      mi_disk_location = 0, mi_version = 0, mi_refcount = 1, mi_dirty = True, mi_tail = []\<rparr>"

text \<open>
  The example state after \<^verbatim>\<open>lsfs_inode_write\<close> of that inode, and after the segment
  buffer has then been flushed to the device.
\<close>

definition written_ctx :: lsfs_context where
  "written_ctx = fst (snd (lsfs_inode_write example_ctx new_file_inode 1010))"

definition flushed_ctx :: lsfs_context where
  "flushed_ctx = snd (lsfs_segment_flush written_ctx 1010)"

(*THEOREMS*)

section \<open>Word arithmetic helpers\<close>

lemma take_bit_unat32: "take_bit 32 (unat (w :: u32)) = unat w"
  using unsigned_less[of w] by (simp add: take_bit_nat_eq_self_iff)

lemma unat_ucast_32_64: "unat (ucast (w :: u32) :: u64) = unat w"
proof -
  have "unat w < 2 ^ 32" using unsigned_less[of w] by simp
  hence "unat w < 2 ^ 64" by simp
  thus ?thesis by (simp add: unsigned_ucast_eq take_bit_nat_eq_self)
qed

section \<open>Address conversion\<close>

lemma unat_segment_to_block:
  "unat (lsfs_segment_to_block s off) = 1025 + unat s * 1024 + unat off"
proof -
  have "unat s < 2 ^ 32" "unat off < 2 ^ 32"
    using unsigned_less[of s] unsigned_less[of off] by simp_all
  hence b: "1025 + unat s * 1024 + unat off < 2 ^ 64" by simp
  have "unat (lsfs_segment_to_block s off) = (1025 + unat s * 1024 + unat off) mod 2 ^ 64"
    unfolding lsfs_segment_to_block_def LSFS_LOG_START_def
    by (simp add: unat_word_ariths unat_ucast_32_64 mod_simps)
  thus ?thesis using b by simp
qed

lemma block_to_segment_inverse:
  assumes h: "unat off < 1024"
  shows "lsfs_block_to_segment (lsfs_segment_to_block s off) = (s, off)"
proof -
  let ?b = "lsfs_segment_to_block s off"
  have nb: "unat ?b = 1025 + unat s * 1024 + unat off" by (rule unat_segment_to_block)
  have ge: "\<not> ?b < LSFS_LOG_START"
    by (simp add: word_less_nat_alt nb LSFS_LOG_START_def)
  hence le: "LSFS_LOG_START \<le> ?b" by simp
  have lb: "unat (?b - LSFS_LOG_START) = unat s * 1024 + unat off"
    using le nb by (simp add: unat_sub LSFS_LOG_START_def)
  have d: "unat ((?b - LSFS_LOG_START) div 1024) = unat s"
    using h by (simp add: unat_div lb)
  have m: "unat ((?b - LSFS_LOG_START) mod 1024) = unat off"
    using h by (simp add: unat_mod lb)
  have d': "(ucast ((?b - LSFS_LOG_START) div 1024) :: u32) = s"
    by (rule word_unat_eq_iff[THEN iffD2]) (simp add: unsigned_ucast_eq d take_bit_unat32)
  have m': "(ucast ((?b - LSFS_LOG_START) mod 1024) :: u32) = off"
    by (rule word_unat_eq_iff[THEN iffD2]) (simp add: unsigned_ucast_eq m take_bit_unat32)
  show ?thesis using ge d' m' by (simp add: lsfs_block_to_segment_def Let_def)
qed

text \<open>
  Claim C9. For every 32-bit segment id and every offset below the segment size in
  blocks (1024), converting to an absolute block address and back returns the same
  pair; and every block address below the log start (1025) converts to (0, 0).
\<close>

theorem address_conversion_round_trip:
  "(unat offset < LSFS_SEGMENT_BLOCKS \<longrightarrow>
      lsfs_block_to_segment (lsfs_segment_to_block segment_id offset) = (segment_id, offset))
   \<and> (block < LSFS_LOG_START \<longrightarrow> lsfs_block_to_segment block = (0, 0))"
proof (intro conjI impI)
  assume "unat offset < LSFS_SEGMENT_BLOCKS"
  thus "lsfs_block_to_segment (lsfs_segment_to_block segment_id offset) = (segment_id, offset)"
    by (simp add: block_to_segment_inverse LSFS_SEGMENT_BLOCKS_def)
next
  assume "block < LSFS_LOG_START"
  thus "lsfs_block_to_segment block = (0, 0)"
    by (simp add: lsfs_block_to_segment_def)
qed

theorem address_conversion_round_trip_witness:
  "unat (1023 :: u32) < LSFS_SEGMENT_BLOCKS
   \<and> lsfs_block_to_segment (lsfs_segment_to_block 7 1023) = (7, 1023)
   \<and> (1024 :: u64) < LSFS_LOG_START
   \<and> lsfs_block_to_segment 1024 = (0, 0)"
  using address_conversion_round_trip [of 1023 7 1024]
  by (simp add: LSFS_SEGMENT_BLOCKS_def LSFS_LOG_START_def)

section \<open>Inode map: binary search and removal\<close>

lemma find_loop_range:
  "0 \<le> l \<Longrightarrow> imap_find_loop es i l r = - 1 \<or>
     (l \<le> imap_find_loop es i l r \<and> imap_find_loop es i l r \<le> r
      \<and> ie_ino (es ! nat (imap_find_loop es i l r)) = i)"
proof (induction es i l r rule: imap_find_loop.induct)
  case (1 es i left right)
  let ?mid = "left + (right - left) div 2"
  show ?case
  proof (cases "left \<le> right")
    case False
    then show ?thesis by (simp add: imap_find_loop.simps[of es i left right])
  next
    case True
    hence m: "left \<le> ?mid" "?mid \<le> right" by auto
    show ?thesis
    proof (cases "ie_ino (es ! nat ?mid) = i")
      case True
      with \<open>left \<le> right\<close> m show ?thesis
        by (simp add: imap_find_loop.simps[of es i left right])
    next
      case ne: False
      show ?thesis
      proof (cases "ie_ino (es ! nat ?mid) < i")
        case lt: True
        have "0 \<le> ?mid + 1" using "1.prems" m by linarith
        from "1.IH"(1)[OF True ne lt this] True ne lt m show ?thesis
          by (simp add: imap_find_loop.simps[of es i left right]) linarith
      next
        case ge: False
        from "1.IH"(2)[OF True ne ge "1.prems"] True ne ge m show ?thesis
          by (simp add: imap_find_loop.simps[of es i left right]) linarith
      qed
    qed
  qed
qed

lemma find_loop_present:
  "imap_sorted es \<Longrightarrow> 0 \<le> l \<Longrightarrow> r < int (length es) \<Longrightarrow> l \<le> k \<Longrightarrow> k \<le> r \<Longrightarrow>
   ie_ino (es ! nat k) = i \<Longrightarrow> imap_find_loop es i l r = k"
proof (induction es i l r rule: imap_find_loop.induct)
  case (1 es i left right)
  let ?mid = "left + (right - left) div 2"
  have lr: "left \<le> right" using "1.prems" by linarith
  hence m: "left \<le> ?mid" "?mid \<le> right" by auto
  have nth_less: "\<And>a b. a < b \<Longrightarrow> b < length es \<Longrightarrow> ie_ino (es ! a) < ie_ino (es ! b)"
    using "1.prems"(1) by (simp add: imap_sorted_def sorted_wrt_iff_nth_less)
  have kb: "nat k < length es" "nat ?mid < length es" using "1.prems" m by linarith+
  show ?case
  proof (cases "ie_ino (es ! nat ?mid) = i")
    case True
    have "nat ?mid = nat k"
    proof (rule ccontr)
      assume "nat ?mid \<noteq> nat k"
      then consider "nat ?mid < nat k" | "nat k < nat ?mid" by linarith
      then show False
      proof cases
        case 1 from nth_less[OF 1 kb(1)] True "1.prems"(6) show False by simp
      next
        case 2 from nth_less[OF 2 kb(2)] True "1.prems"(6) show False by simp
      qed
    qed
    hence "?mid = k" using "1.prems" m by linarith
    with True lr show ?thesis by (simp add: imap_find_loop.simps[of es i left right])
  next
    case ne: False
    show ?thesis
    proof (cases "ie_ino (es ! nat ?mid) < i")
      case lt: True
      have "\<not> nat k \<le> nat ?mid"
      proof
        assume "nat k \<le> nat ?mid"
        hence "nat k < nat ?mid \<or> nat k = nat ?mid" by linarith
        thus False
        proof
          assume a: "nat k < nat ?mid"
          from nth_less[OF a kb(2)] lt "1.prems"(6) show False by simp
        next
          assume "nat k = nat ?mid" with ne "1.prems"(6) show False by simp
        qed
      qed
      hence "?mid + 1 \<le> k" using "1.prems" m by linarith
      moreover have "0 \<le> ?mid + 1" using "1.prems" m by linarith
      ultimately have "imap_find_loop es i (?mid + 1) right = k"
        using "1.IH"(1)[OF lr ne lt "1.prems"(1)] "1.prems" by simp
      with lr ne lt show ?thesis
        by (simp add: imap_find_loop.simps[of es i left right])
    next
      case ge: False
      have "\<not> nat ?mid \<le> nat k"
      proof
        assume "nat ?mid \<le> nat k"
        hence "nat ?mid < nat k \<or> nat k = nat ?mid" by linarith
        thus False
        proof
          assume a: "nat ?mid < nat k"
          from nth_less[OF a kb(1)] ge ne "1.prems"(6) show False by simp
        next
          assume "nat k = nat ?mid" with ne "1.prems"(6) show False by simp
        qed
      qed
      hence "k \<le> ?mid - 1" using "1.prems" m by linarith
      moreover have "?mid - 1 < int (length es)" using "1.prems" m by linarith
      ultimately have "imap_find_loop es i left (?mid - 1) = k"
        using "1.IH"(2)[OF lr ne ge "1.prems"(1,2)] "1.prems" by simp
      with lr ne ge show ?thesis
        by (simp add: imap_find_loop.simps[of es i left right])
    qed
  qed
qed


lemma im_count_small:
  "length (im_entries m) < 2 ^ 31 \<Longrightarrow> sint (im_count m) = int (length (im_entries m))"
  "length (im_entries m) < 2 ^ 31 \<Longrightarrow> unat (im_count m) = length (im_entries m)"
  "length (im_entries m) < 2 ^ 31 \<Longrightarrow> im_count m = 0 \<longleftrightarrow> im_entries m = []"
proof -
  assume h: "length (im_entries m) < 2 ^ 31"
  hence h2: "length (im_entries m) < 2 ^ 32" by simp
  show u: "unat (im_count m) = length (im_entries m)"
    using h2 by (simp add: im_count_def unat_of_nat)
  show "sint (im_count m) = int (length (im_entries m))"
    using h by (simp add: im_count_def signed_of_nat signed_take_bit_int_eq_self)
  show "im_count m = 0 \<longleftrightarrow> im_entries m = []"
    using u by (metis length_0_conv unat_0_iff)
qed


lemma imap_find_absent:
  assumes len: "length (im_entries m) < 2 ^ 31"
      and abs: "i \<notin> ie_ino ` set (im_entries m)"
  shows "imap_find m i = - 1"
proof (cases "im_count m = 0")
  case True
  then show ?thesis by (simp add: imap_find_def)
next
  case False
  let ?es = "im_entries m"
  let ?r = "imap_find_loop ?es i 0 (int (length ?es) - 1)"
  have "?r = - 1 \<or> (0 \<le> ?r \<and> ?r \<le> int (length ?es) - 1 \<and> ie_ino (?es ! nat ?r) = i)"
    using find_loop_range[of 0 ?es i "int (length ?es) - 1"] by simp
  moreover have "\<not> (0 \<le> ?r \<and> ?r \<le> int (length ?es) - 1 \<and> ie_ino (?es ! nat ?r) = i)"
  proof
    assume a: "0 \<le> ?r \<and> ?r \<le> int (length ?es) - 1 \<and> ie_ino (?es ! nat ?r) = i"
    hence "nat ?r < length ?es" by linarith
    hence "?es ! nat ?r \<in> set ?es" by (rule nth_mem)
    hence "ie_ino (?es ! nat ?r) \<in> ie_ino ` set ?es" by (rule imageI)
    with a abs show False by simp
  qed
  ultimately have "?r = - 1" by blast
  with False show ?thesis by (simp add: imap_find_def im_count_small(1)[OF len])
qed

lemma imap_find_present:
  assumes len: "length (im_entries m) < 2 ^ 31"
      and srt: "imap_sorted (im_entries m)"
      and k: "k < length (im_entries m)" "ie_ino (im_entries m ! k) = i"
  shows "imap_find m i = int k"
proof -
  have ne: "im_count m \<noteq> 0" using k(1) im_count_small(3)[OF len] by auto
  have "imap_find_loop (im_entries m) i 0 (int (length (im_entries m)) - 1) = int k"
    by (rule find_loop_present[OF srt]) (use k in simp_all)
  with ne show ?thesis by (simp add: imap_find_def im_count_small(1)[OF len])
qed

lemma remove_shift:
  assumes k: "k < length es"
  shows "k < length es - Suc 0 \<Longrightarrow>
           take (length es - Suc 0) (memmove_entries es k (Suc k) (length es - Suc k))
           = take k es @ drop (Suc k) es"
    and "\<not> k < length es - Suc 0 \<Longrightarrow> take (length es - Suc 0) es = take k es @ drop (Suc k) es"
proof -
  assume lt: "k < length es - Suc 0"
  have "memmove_entries es k (Suc k) (length es - Suc k)
          = (take k es @ drop (Suc k) es) @ drop (length es - Suc 0) es"
    using lt by (simp add: memmove_entries_def)
  moreover have "length (take k es @ drop (Suc k) es) = length es - Suc 0" using k by simp
  ultimately show "take (length es - Suc 0) (memmove_entries es k (Suc k) (length es - Suc k))
           = take k es @ drop (Suc k) es"
    by (metis append_eq_conv_conj)
next
  assume "\<not> k < length es - Suc 0"
  hence "k = length es - Suc 0" using k by linarith
  thus "take (length es - Suc 0) es = take k es @ drop (Suc k) es" using k by simp
qed

lemma sorted_delete_filter:
  assumes srt: "imap_sorted es" and k: "k < length es"
  shows "take k es @ drop (Suc k) es = filter (\<lambda>e. ie_ino e \<noteq> ie_ino (es ! k)) es"
proof -
  have nth_less: "\<And>a b. a < b \<Longrightarrow> b < length es \<Longrightarrow> ie_ino (es ! a) < ie_ino (es ! b)"
    using srt by (simp add: imap_sorted_def sorted_wrt_iff_nth_less)
  have a: "\<forall>e \<in> set (take k es). ie_ino e \<noteq> ie_ino (es ! k)"
  proof
    fix e assume "e \<in> set (take k es)"
    then obtain j where j: "j < k" "e = es ! j"
      using k by (auto simp: in_set_conv_nth)
    from nth_less[OF j(1) k] j(2) show "ie_ino e \<noteq> ie_ino (es ! k)" by simp
  qed
  have b: "\<forall>e \<in> set (drop (Suc k) es). ie_ino e \<noteq> ie_ino (es ! k)"
  proof
    fix e assume "e \<in> set (drop (Suc k) es)"
    then obtain j where j: "j < length es - Suc k" "e = es ! (Suc k + j)"
      by (auto simp: in_set_conv_nth)
    have "k < Suc k + j" "Suc k + j < length es" using j(1) by linarith+
    from nth_less[OF this] j(2) show "ie_ino e \<noteq> ie_ino (es ! k)" by simp
  qed
  have "es = take k es @ es ! k # drop (Suc k) es" using k by (rule id_take_nth_drop)
  hence "filter (\<lambda>e. ie_ino e \<noteq> ie_ino (es ! k)) es
         = filter (\<lambda>e. ie_ino e \<noteq> ie_ino (es ! k)) (take k es @ es ! k # drop (Suc k) es)"
    by simp
  also have "\<dots> = take k es @ drop (Suc k) es"
    using a b by (simp add: filter_id_conv)
  finally show ?thesis by simp
qed

lemma remove_cond:
  assumes len: "length (im_entries m) < 2 ^ 31" and k: "k < length (im_entries m)"
  shows "((word_of_int (int k) :: u32) < im_count m - 1) = (k < length (im_entries m) - 1)"
proof -
  have c: "unat (im_count m) = length (im_entries m)" by (rule im_count_small(2)[OF len])
  have "1 \<le> im_count m" using k c by (simp add: word_le_nat_alt)
  hence "unat (im_count m - 1) = length (im_entries m) - 1" using c by (simp add: unat_sub)
  moreover have "unat (word_of_int (int k) :: u32) = k"
    using k len by (simp add: unat_of_nat)
  ultimately show ?thesis by (simp add: word_less_nat_alt)
qed

text \<open>
  Claim C10. Removing an inode number that is not in the map returns the no-entry
  error and leaves the map unchanged. On a map sorted by inode number, removing a
  present inode number returns success, removes exactly the entry with that number
  (the count drops by one), keeps the remaining entries in sorted order and leaves
  capacity and allocation counter alone.
\<close>

theorem imap_remove_atomic:
  assumes len: "length (im_entries m) < 2 ^ 31"
  shows "(i \<notin> ie_ino ` set (im_entries m) \<longrightarrow> lsfs_imap_remove m i = (LSFS_ERR_NOENT, m))
       \<and> (imap_sorted (im_entries m) \<and> j \<in> ie_ino ` set (im_entries m) \<longrightarrow>
            fst (lsfs_imap_remove m j) = LSFS_OK
          \<and> im_entries (snd (lsfs_imap_remove m j)) = filter (\<lambda>e. ie_ino e \<noteq> j) (im_entries m)
          \<and> length (im_entries (snd (lsfs_imap_remove m j))) + 1 = length (im_entries m)
          \<and> imap_sorted (im_entries (snd (lsfs_imap_remove m j)))
          \<and> im_capacity (snd (lsfs_imap_remove m j)) = im_capacity m
          \<and> im_next_ino (snd (lsfs_imap_remove m j)) = im_next_ino m)"
proof (intro conjI impI)
  assume "i \<notin> ie_ino ` set (im_entries m)"
  from imap_find_absent[OF len this]
  show "lsfs_imap_remove m i = (LSFS_ERR_NOENT, m)" by (simp add: lsfs_imap_remove_def)
next
  assume a: "imap_sorted (im_entries m) \<and> j \<in> ie_ino ` set (im_entries m)"
  let ?es = "im_entries m"
  from a obtain k where k: "k < length ?es" "ie_ino (?es ! k) = j"
    by (auto simp: in_set_conv_nth)
  have f: "imap_find m j = int k" using imap_find_present[OF len _ k] a by simp
  have r: "lsfs_imap_remove m j = (LSFS_OK, m\<lparr>im_entries := take k ?es @ drop (Suc k) ?es\<rparr>)"
    using remove_shift[OF k(1)] remove_cond[OF len k(1)]
    by (simp add: lsfs_imap_remove_def f Let_def)
  have e: "take k ?es @ drop (Suc k) ?es = filter (\<lambda>e. ie_ino e \<noteq> j) ?es"
    using sorted_delete_filter[OF _ k(1)] a k(2) by simp
  show "fst (lsfs_imap_remove m j) = LSFS_OK" by (simp add: r)
  show "im_entries (snd (lsfs_imap_remove m j)) = filter (\<lambda>e. ie_ino e \<noteq> j) ?es"
    by (simp add: r e)
  show "length (im_entries (snd (lsfs_imap_remove m j))) + 1 = length ?es"
    using k(1) by (simp add: r)
  show "imap_sorted (im_entries (snd (lsfs_imap_remove m j)))"
    using a by (simp add: r e imap_sorted_def sorted_wrt_filter)
  show "im_capacity (snd (lsfs_imap_remove m j)) = im_capacity m" by (simp add: r)
  show "im_next_ino (snd (lsfs_imap_remove m j)) = im_next_ino m" by (simp add: r)
qed

theorem imap_remove_atomic_witness:
  "length (im_entries imap_example) < 2 ^ 31
   \<and> 4 \<notin> ie_ino ` set (im_entries imap_example)
   \<and> lsfs_imap_remove imap_example 4 = (LSFS_ERR_NOENT, imap_example)
   \<and> imap_sorted (im_entries imap_example)
   \<and> 5 \<in> ie_ino ` set (im_entries imap_example)
   \<and> fst (lsfs_imap_remove imap_example 5) = LSFS_OK
   \<and> im_entries (snd (lsfs_imap_remove imap_example 5))
       = [\<lparr>ie_ino = 1, ie_version = 1, ie_location = 1026\<rparr>,
          \<lparr>ie_ino = 9, ie_version = 1, ie_location = 1031\<rparr>]"
proof -
  have l: "length (im_entries imap_example) < 2 ^ 31" by (simp add: imap_example_def)
  have s: "imap_sorted (im_entries imap_example)"
    by (simp add: imap_example_def imap_sorted_def)
  have a: "4 \<notin> ie_ino ` set (im_entries imap_example)" by (simp add: imap_example_def)
  have p: "5 \<in> ie_ino ` set (im_entries imap_example)" by (simp add: imap_example_def)
  have f: "filter (\<lambda>e. ie_ino e \<noteq> 5) (im_entries imap_example)
            = [\<lparr>ie_ino = 1, ie_version = 1, ie_location = 1026\<rparr>,
               \<lparr>ie_ino = 9, ie_version = 1, ie_location = 1031\<rparr>]"
    by (simp add: imap_example_def)
  from imap_remove_atomic[OF l, of 4 5] l s a p f show ?thesis by simp
qed

section \<open>Frame lemmas for the block device and checkpoint steps\<close>

lemma write_block_fields [simp]:
  "sb (snd (lsfs_write_block c n b)) = sb c"
  "imap (snd (lsfs_write_block c n b)) = imap c"
  "segtable (snd (lsfs_write_block c n b)) = segtable c"
  "segbuf (snd (lsfs_write_block c n b)) = segbuf c"
  "readonly (snd (lsfs_write_block c n b)) = readonly c"
  "disk_size (snd (lsfs_write_block c n b)) = disk_size c"
  "checkpoint_seq (snd (lsfs_write_block c n b)) = checkpoint_seq c"
  "last_checkpoint (snd (lsfs_write_block c n b)) = last_checkpoint c"
  "writes_since_checkpoint (snd (lsfs_write_block c n b)) = writes_since_checkpoint c"
  "icache (snd (lsfs_write_block c n b)) = icache c"
  by (simp_all add: lsfs_write_block_def)

lemma write_blocks_fields [simp]:
  "sb (snd (lsfs_write_blocks c n bs)) = sb c"
  "imap (snd (lsfs_write_blocks c n bs)) = imap c"
  "segtable (snd (lsfs_write_blocks c n bs)) = segtable c"
  "segbuf (snd (lsfs_write_blocks c n bs)) = segbuf c"
  "readonly (snd (lsfs_write_blocks c n bs)) = readonly c"
  "disk_size (snd (lsfs_write_blocks c n bs)) = disk_size c"
  "checkpoint_seq (snd (lsfs_write_blocks c n bs)) = checkpoint_seq c"
  "last_checkpoint (snd (lsfs_write_blocks c n bs)) = last_checkpoint c"
  "writes_since_checkpoint (snd (lsfs_write_blocks c n bs)) = writes_since_checkpoint c"
  "icache (snd (lsfs_write_blocks c n bs)) = icache c"
  by (simp_all add: lsfs_write_blocks_def)

lemma sync_fields [simp]:
  "fst (lsfs_sync c) = LSFS_OK"
  "sb (snd (lsfs_sync c)) = sb c"
  "imap (snd (lsfs_sync c)) = imap c"
  "segtable (snd (lsfs_sync c)) = segtable c"
  "segbuf (snd (lsfs_sync c)) = segbuf c"
  "readonly (snd (lsfs_sync c)) = readonly c"
  "disk_size (snd (lsfs_sync c)) = disk_size c"
  "disk (snd (lsfs_sync c)) = disk c"
  "checkpoint_seq (snd (lsfs_sync c)) = checkpoint_seq c"
  "last_checkpoint (snd (lsfs_sync c)) = last_checkpoint c"
  "writes_since_checkpoint (snd (lsfs_sync c)) = writes_since_checkpoint c"
  "icache (snd (lsfs_sync c)) = icache c"
  by (simp_all add: lsfs_sync_def)

lemma imap_save_fields [simp]:
  "sb (snd (lsfs_imap_save c n)) = sb c"
  "imap (snd (lsfs_imap_save c n)) = imap c"
  "segtable (snd (lsfs_imap_save c n)) = segtable c"
  "segbuf (snd (lsfs_imap_save c n)) = segbuf c"
  "readonly (snd (lsfs_imap_save c n)) = readonly c"
  "disk_size (snd (lsfs_imap_save c n)) = disk_size c"
  "checkpoint_seq (snd (lsfs_imap_save c n)) = checkpoint_seq c"
  "last_checkpoint (snd (lsfs_imap_save c n)) = last_checkpoint c"
  "writes_since_checkpoint (snd (lsfs_imap_save c n)) = writes_since_checkpoint c"
  "icache (snd (lsfs_imap_save c n)) = icache c"
  by (simp_all add: lsfs_imap_save_def Let_def)

lemma checkpoint_body_log_head:
  "sb_log_head (sb (snd (checkpoint_write_body c now))) = sb_log_head (sb c)"
  by (simp add: checkpoint_write_body_def Let_def on_ok_def)

lemma checkpoint_body_tables:
  "imap (snd (checkpoint_write_body c now)) = imap c"
  "segtable (snd (checkpoint_write_body c now)) = segtable c"
  "segbuf (snd (checkpoint_write_body c now)) = segbuf c"
  by (simp_all add: checkpoint_write_body_def Let_def on_ok_def)

lemma segment_alloc_log_head:
  "sb_log_head (sb (fst (snd (lsfs_segment_alloc c now)))) = sb_log_head (sb c)"
  by (simp add: lsfs_segment_alloc_def Let_def split: option.splits)

lemma flush_finish_log_head:
  "sb_log_head (sb (segment_flush_finish c1 sg now))
     = lsfs_segment_to_block (sg_segment_id sg) 0 + ucast (sg_block_count sg)"
proof -
  have "\<And>c. sb_log_head (sb (fst (snd (lsfs_segment_alloc c now)))) = sb_log_head (sb c)"
    by (rule segment_alloc_log_head)
  thus ?thesis
    by (simp add: segment_flush_finish_def Let_def split_beta checkpoint_body_log_head)
qed

lemma flush_nonempty:
  assumes "1 < sg_block_count (segbuf c)"
  shows "lsfs_segment_flush c now =
     (let sg = segbuf c;
          data = (sg_data sg)[0 := summary_block sg now];
          w = lsfs_write_blocks (c\<lparr>segbuf := sg\<lparr>sg_data := data\<rparr>\<rparr>)
                (lsfs_segment_to_block (sg_segment_id sg) 0)
                (take (unat (sg_block_count sg)) data)
      in if fst w \<noteq> LSFS_OK then w else (LSFS_OK, segment_flush_finish (snd w) sg now))"
proof -
  have "\<not> sg_block_count (segbuf c) \<le> 1" using assms by simp
  thus ?thesis by (simp add: lsfs_segment_flush_def Let_def split_beta)
qed

lemma flush_success_iff:
  assumes "1 < sg_block_count (segbuf c)"
  shows "fst (lsfs_segment_flush c now) = LSFS_OK \<longleftrightarrow>
           \<not> readonly c \<and> io_in_range c (lsfs_segment_to_block (sg_segment_id (segbuf c)) 0)
                                (min (unat (sg_block_count (segbuf c))) (length (sg_data (segbuf c))))"
  by (simp add: flush_nonempty[OF assms] Let_def lsfs_write_blocks_def io_in_range_def min.commute)

lemma flush_log_head:
  assumes "1 < sg_block_count (segbuf c)" and "fst (lsfs_segment_flush c now) = LSFS_OK"
  shows "sb_log_head (sb (snd (lsfs_segment_flush c now)))
         = lsfs_segment_to_block (sg_segment_id (segbuf c)) 0 + ucast (sg_block_count (segbuf c))"
  using assms(2)
  by (simp add: flush_nonempty[OF assms(1)] Let_def flush_finish_log_head split: if_splits)


text \<open>
  Claim C7 against the code. After every successful flush of a non-empty active
  segment the superblock's log head is the address of the slot that follows the last
  block written, \<^verbatim>\<open>lsfs_segment_to_block(segment_id, block_count)\<close>. It is the block
  past the flushed segment, the next segment boundary the claim asks for, exactly
  when the flushed segment was completely filled (\<^verbatim>\<open>block_count = 1024\<close>).
\<close>

theorem segment_flush_log_head:
  assumes "1 < sg_block_count (segbuf ctx)" and "fst (lsfs_segment_flush ctx now) = LSFS_OK"
  shows "sb_log_head (sb (snd (lsfs_segment_flush ctx now)))
           = lsfs_segment_to_block (sg_segment_id (segbuf ctx)) (sg_block_count (segbuf ctx))
       \<and> (sb_log_head (sb (snd (lsfs_segment_flush ctx now)))
            = lsfs_segment_to_block (sg_segment_id (segbuf ctx)) 0 + 1024
          \<longleftrightarrow> sg_block_count (segbuf ctx) = 1024)"
proof -
  let ?bc = "sg_block_count (segbuf ctx)"
  have "(ucast ?bc :: u64) = 1024 \<longleftrightarrow> ?bc = 1024"
  proof
    assume "(ucast ?bc :: u64) = 1024"
    hence "unat (ucast ?bc :: u64) = 1024" by simp
    hence "unat ?bc = unat (1024 :: u32)" by (simp add: unat_ucast_32_64)
    thus "?bc = 1024" by (simp only: word_unat_eq_iff)
  qed simp
  thus ?thesis
    using flush_log_head[OF assms] by (simp add: lsfs_segment_to_block_def)
qed

theorem segment_flush_log_head_witness:
  "1 < sg_block_count (segbuf partial_segment_ctx)
   \<and> fst (lsfs_segment_flush partial_segment_ctx 1010) = LSFS_OK
   \<and> sb_log_head (sb (snd (lsfs_segment_flush partial_segment_ctx 1010))) = 2051"
proof -
  have a: "1 < sg_block_count (segbuf partial_segment_ctx)"
    by (simp add: partial_segment_ctx_def example_ctx_def)
  have b: "fst (lsfs_segment_flush partial_segment_ctx 1010) = LSFS_OK"
    by (simp add: flush_success_iff[OF a])
       (simp add: partial_segment_ctx_def example_ctx_def io_in_range_def
          lsfs_segment_to_block_def LSFS_LOG_START_def)
  from segment_flush_log_head[OF a b] a b show ?thesis
    by (simp add: partial_segment_ctx_def example_ctx_def lsfs_segment_to_block_def
          LSFS_LOG_START_def)
qed

lemma example_first_free:
  "first_free (take (unat (st_count example_segtable)) (st_entries example_segtable)) 0 = Some 2"
  by (simp add: example_segtable_def LSFS_SEG_FULL_def LSFS_SEG_ACTIVE_def LSFS_SEG_FREE_def
        upt_conv_Cons)

lemma partial_flush_segment:
  "sg_segment_id (segbuf (snd (lsfs_segment_flush partial_segment_ctx 1010))) = 2"
proof -
  have a: "1 < sg_block_count (segbuf partial_segment_ctx)"
    by (simp add: partial_segment_ctx_def example_ctx_def)
  show ?thesis
    apply (simp add: flush_nonempty[OF a] Let_def)
    apply (simp add: partial_segment_ctx_def example_ctx_def)
    apply (simp add: lsfs_write_blocks_def io_in_range_def lsfs_segment_to_block_def
             LSFS_LOG_START_def)
    apply (simp add: segment_flush_finish_def Let_def lsfs_segment_alloc_def
             example_first_free[simplified] example_segtable_def lsfs_checkpoint_needed_def
             CHECKPOINT_INTERVAL_def CHECKPOINT_TIME_SEC_def LSFS_SEG_FULL_def
             LSFS_SEG_ACTIVE_def LSFS_SEG_FREE_def upt_conv_Cons checkpoint_body_tables)
    done
qed

text \<open>
  Claim C7 fails on the code for a forced flush of a partially filled segment. With
  two slots used in segment 1 the flush succeeds, the log head becomes 2051 and not
  the next segment boundary 3073, and the writer moves on to the fresh segment 2:
  the log head is left inside segment 1, behind which nothing will be written, and
  the segment it designates for the start of roll-forward is segment 1, not the
  segment the log continues in.
\<close>

theorem segment_flush_log_head_counterexample:
  "1 < sg_block_count (segbuf partial_segment_ctx)
   \<and> fst (lsfs_segment_flush partial_segment_ctx 1010) = LSFS_OK
   \<and> sb_log_head (sb (snd (lsfs_segment_flush partial_segment_ctx 1010)))
       \<noteq> lsfs_segment_to_block (sg_segment_id (segbuf partial_segment_ctx)) 0 + 1024
   \<and> sb_log_head (sb (snd (lsfs_segment_flush partial_segment_ctx 1010))) = 2051
   \<and> sg_segment_id (segbuf (snd (lsfs_segment_flush partial_segment_ctx 1010))) = 2
   \<and> lsfs_block_to_segment (sb_log_head (sb (snd (lsfs_segment_flush partial_segment_ctx 1010))))
       = (1, 2)"
proof -
  have a: "1 < sg_block_count (segbuf partial_segment_ctx)"
    by (simp add: partial_segment_ctx_def example_ctx_def)
  have b: "fst (lsfs_segment_flush partial_segment_ctx 1010) = LSFS_OK"
    by (simp add: flush_success_iff[OF a])
       (simp add: partial_segment_ctx_def example_ctx_def io_in_range_def
          lsfs_segment_to_block_def LSFS_LOG_START_def)
  have h: "sb_log_head (sb (snd (lsfs_segment_flush partial_segment_ctx 1010))) = 2051"
    using flush_log_head[OF a b]
    by (simp add: partial_segment_ctx_def example_ctx_def lsfs_segment_to_block_def
          LSFS_LOG_START_def)
  have s: "lsfs_block_to_segment 2051 = (1, 2)"
    by (simp add: lsfs_block_to_segment_def LSFS_LOG_START_def Let_def)
  have n: "(2051 :: u64)
             \<noteq> lsfs_segment_to_block (sg_segment_id (segbuf partial_segment_ctx)) 0 + 1024"
    by (simp add: partial_segment_ctx_def example_ctx_def lsfs_segment_to_block_def
          LSFS_LOG_START_def)
  from a b h s n partial_flush_segment show ?thesis by simp
qed

section \<open>Checkpoint emission order\<close>

lemma on_ok_fst:
  "fst (on_ok r f) = LSFS_OK \<longleftrightarrow> fst r = LSFS_OK \<and> fst (f (snd r)) = LSFS_OK"
  by (simp add: on_ok_def)

lemma on_ok_ok: "fst r = LSFS_OK \<Longrightarrow> on_ok r f = f (snd r)"
  by (simp add: on_ok_def)

lemma write_block_fst:
  "fst (lsfs_write_block c n b) = LSFS_OK \<longleftrightarrow> \<not> readonly c \<and> io_in_range c n 1"
  by (simp add: lsfs_write_block_def)

lemma write_blocks_fst:
  "fst (lsfs_write_blocks c n bs) = LSFS_OK \<longleftrightarrow> \<not> readonly c \<and> io_in_range c n (length bs)"
  by (simp add: lsfs_write_blocks_def)

lemma length_blocks_of [simp]: "length (blocks_of n bs) = n"
  by (simp add: blocks_of_def)

lemma imap_save_fst:
  "fst (lsfs_imap_save c n) = LSFS_OK \<longleftrightarrow>
     (im_count (imap c) + 256 - 1) div 256 \<le> 255 \<and> \<not> readonly c
     \<and> io_in_range c n (unat ((im_count (imap c) + 256 - 1) div 256))"
  by (auto simp: lsfs_imap_save_def Let_def write_blocks_fst not_less)

lemma io_in_range_after [simp]:
  "io_in_range (snd (lsfs_write_block c n b)) = io_in_range c"
  "io_in_range (snd (lsfs_write_blocks c n bs)) = io_in_range c"
  "io_in_range (snd (lsfs_imap_save c n)) = io_in_range c"
  "io_in_range (snd (lsfs_sync c)) = io_in_range c"
  "io_in_range (c\<lparr>checkpoint_seq := q\<rparr>) = io_in_range c"
  "io_in_range (c\<lparr>sb := s\<rparr>) = io_in_range c"
  "io_in_range (c\<lparr>segbuf := g\<rparr>) = io_in_range c"
  by (simp_all add: io_in_range_def fun_eq_iff)

lemma write_block_trace:
  "dev_trace (snd (lsfs_write_block c n b))
     = dev_trace c @ (if fst (lsfs_write_block c n b) = LSFS_OK then [DevWrite n [b]] else [])"
  by (simp add: lsfs_write_block_def)

lemma write_blocks_trace:
  "dev_trace (snd (lsfs_write_blocks c n bs))
     = dev_trace c @ (if fst (lsfs_write_blocks c n bs) = LSFS_OK then [DevWrite n bs] else [])"
  by (simp add: lsfs_write_blocks_def)

lemma imap_save_trace:
  "dev_trace (snd (lsfs_imap_save c n))
     = dev_trace c @ (if fst (lsfs_imap_save c n) = LSFS_OK
         then [DevWrite n (blocks_of (unat ((im_count (imap c) + 256 - 1) div 256))
                     (concat (map imap_entry_bytes (im_entries (imap c)))))] else [])"
  by (simp add: lsfs_imap_save_def Let_def lsfs_write_blocks_def)

lemma sync_trace: "dev_trace (snd (lsfs_sync c)) = dev_trace c @ [DevSync]"
  by (simp add: lsfs_sync_def)

lemma checkpoint_body_fst:
  "fst (checkpoint_write_body c now) = LSFS_OK \<longleftrightarrow>
     \<not> readonly c \<and> io_in_range c (checkpoint_block_of c) 1
     \<and> (im_count (imap c) + 256 - 1) div 256 \<le> 255
     \<and> io_in_range c (checkpoint_block_of c + 1) (unat ((im_count (imap c) + 256 - 1) div 256))
     \<and> io_in_range c LSFS_SUPERBLOCK_BLOCK 1"
  by (auto simp: checkpoint_write_body_def Let_def on_ok_fst write_block_fst imap_save_fst)

lemma checkpoint_body_trace:
  assumes "fst (checkpoint_write_body c now) = LSFS_OK"
  shows "dev_trace (snd (checkpoint_write_body c now)) = dev_trace c @ checkpoint_ops c now"
proof -
  from assms have ok: "\<not> readonly c" "io_in_range c (checkpoint_block_of c) 1"
     "(im_count (imap c) + 256 - 1) div 256 \<le> 255"
     "io_in_range c (checkpoint_block_of c + 1) (unat ((im_count (imap c) + 256 - 1) div 256))"
     "io_in_range c LSFS_SUPERBLOCK_BLOCK 1"
    by (simp_all add: checkpoint_body_fst)
  show ?thesis
    using ok
    by (simp add: checkpoint_write_body_def Let_def on_ok_ok write_block_fst imap_save_fst
          write_blocks_fst write_block_trace write_blocks_trace imap_save_trace sync_trace
          checkpoint_ops_def)
qed


lemma checkpoint_write_unfold:
  "fst (lsfs_checkpoint_write ctx now) = LSFS_OK \<Longrightarrow>
   lsfs_checkpoint_write ctx now = checkpoint_write_body (after_pending_flush ctx now) now"
  by (simp add: lsfs_checkpoint_write_def after_pending_flush_def on_ok_def split: if_splits)

text \<open>
  Claim C2, as amended. Every successful \<^verbatim>\<open>lsfs_checkpoint_write\<close> appends to the
  device history, after the flush of pending segment data, exactly: the header with
  \<^verbatim>\<open>complete = 0\<close>, the inode map blocks, the segment table (when it fits on the
  device), a sync, the header with \<^verbatim>\<open>complete = 1\<close>, the superblock with the new
  active region, and a final sync. No sync separates the second header write from the
  superblock write.
\<close>

theorem checkpoint_write_order:
  assumes "fst (lsfs_checkpoint_write ctx now) = LSFS_OK"
  shows "dev_trace (snd (lsfs_checkpoint_write ctx now))
         = dev_trace (after_pending_flush ctx now) @ checkpoint_ops (after_pending_flush ctx now) now"
proof -
  have e: "lsfs_checkpoint_write ctx now = checkpoint_write_body (after_pending_flush ctx now) now"
    using assms by (rule checkpoint_write_unfold)
  with assms have "fst (checkpoint_write_body (after_pending_flush ctx now) now) = LSFS_OK"
    by simp
  from checkpoint_body_trace[OF this] e show ?thesis by simp
qed

text \<open>The example state meets the hypothesis.\<close>

lemma example_checkpoint_ok: "fst (lsfs_checkpoint_write example_ctx 1010) = LSFS_OK"
proof -
  have "fst (checkpoint_write_body example_ctx 1010) = LSFS_OK"
    unfolding checkpoint_body_fst
    by (simp add: example_ctx_def example_sb_def io_in_range_def checkpoint_block_of_def
          cp_region_of_def im_count_def LSFS_CHECKPOINT0_START_def LSFS_CHECKPOINT1_START_def
          LSFS_SUPERBLOCK_BLOCK_def)
  thus ?thesis by (simp add: lsfs_checkpoint_write_def example_ctx_def)
qed

lemma example_no_pending: "after_pending_flush example_ctx 1010 = example_ctx"
  by (simp add: after_pending_flush_def example_ctx_def)

lemma example_segtable_in_range:
  "io_in_range example_ctx LSFS_SEGTABLE_START (length (segtable_blocks (segtable example_ctx)))"
  by (simp add: example_ctx_def io_in_range_def segtable_blocks_def Let_def
        example_segtable_def LSFS_SEGTABLE_START_def)

theorem checkpoint_write_order_witness:
  "fst (lsfs_checkpoint_write example_ctx 1010) = LSFS_OK
   \<and> dev_trace (snd (lsfs_checkpoint_write example_ctx 1010))
       = dev_trace (after_pending_flush example_ctx 1010)
         @ checkpoint_ops (after_pending_flush example_ctx 1010) 1010
   \<and> length (checkpoint_ops (after_pending_flush example_ctx 1010) 1010) = 7"
proof -
  have "length (checkpoint_ops (after_pending_flush example_ctx 1010) 1010) = 7"
    using example_segtable_in_range
    by (simp add: example_no_pending checkpoint_ops_def Let_def)
  with checkpoint_write_order[OF example_checkpoint_ok] example_checkpoint_ok
  show ?thesis by simp
qed

text \<open>
  Claim C2 as stated fails: on the example state the checkpoint succeeds with seven
  operations, while the stated order has eight.
\<close>

theorem checkpoint_write_order_counterexample:
  "fst (lsfs_checkpoint_write example_ctx 1010) = LSFS_OK
   \<and> dev_trace (snd (lsfs_checkpoint_write example_ctx 1010))
       \<noteq> dev_trace (after_pending_flush example_ctx 1010)
         @ claimed_checkpoint_ops (after_pending_flush example_ctx 1010) 1010"
proof -
  have "length (checkpoint_ops (after_pending_flush example_ctx 1010) 1010)
        \<noteq> length (claimed_checkpoint_ops (after_pending_flush example_ctx 1010) 1010)"
    by (simp add: checkpoint_ops_def claimed_checkpoint_ops_def Let_def)
  hence "checkpoint_ops (after_pending_flush example_ctx 1010) 1010
        \<noteq> claimed_checkpoint_ops (after_pending_flush example_ctx 1010) 1010"
    by metis
  moreover have "fst (checkpoint_write_body (after_pending_flush example_ctx 1010) 1010) = LSFS_OK"
    using example_checkpoint_ok checkpoint_write_unfold[OF example_checkpoint_ok] by simp
  ultimately show ?thesis
    using checkpoint_body_trace[of "after_pending_flush example_ctx 1010" 1010]
      checkpoint_write_unfold[OF example_checkpoint_ok] example_checkpoint_ok
    by simp
qed

section \<open>Byte images: reading back what was written\<close>

lemma bit_byte0:
  "bit (ucast (ucast (w :: 'a::len word) :: u8) :: 'a word) n \<longleftrightarrow> n < 8 \<and> bit w n"
  by (auto simp: bit_simps dest: bit_imp_le_length)

lemma bit_byte:
  "bit (push_bit m (ucast (ucast (drop_bit m (w :: 'a::len word)) :: u8) :: 'a word)) n
     \<longleftrightarrow> m \<le> n \<and> n < m + 8 \<and> bit w n"
  by (auto simp: bit_simps dest: bit_imp_le_length)

lemma le32_value: "ucast (ucast w :: u8) OR push_bit 8 (ucast (ucast (drop_bit 8 w) :: u8))
     OR push_bit 16 (ucast (ucast (drop_bit 16 w) :: u8))
     OR push_bit 24 (ucast (ucast (drop_bit 24 w) :: u8)) = (w :: u32)"
proof (rule bit_word_eqI)
  fix n assume "n < LENGTH(32)"
  hence n: "n < 32" by simp
  show "bit (ucast (ucast w :: u8) OR push_bit 8 (ucast (ucast (drop_bit 8 w) :: u8))
     OR push_bit 16 (ucast (ucast (drop_bit 16 w) :: u8))
     OR push_bit 24 (ucast (ucast (drop_bit 24 w) :: u8)) :: u32) n = bit w n"
    unfolding bit_or_iff bit_byte0 bit_byte using n by (cases "bit w n") auto
qed

lemma le64_value: "ucast (ucast w :: u8) OR push_bit 8 (ucast (ucast (drop_bit 8 w) :: u8))
     OR push_bit 16 (ucast (ucast (drop_bit 16 w) :: u8))
     OR push_bit 24 (ucast (ucast (drop_bit 24 w) :: u8))
     OR push_bit 32 (ucast (ucast (drop_bit 32 w) :: u8))
     OR push_bit 40 (ucast (ucast (drop_bit 40 w) :: u8))
     OR push_bit 48 (ucast (ucast (drop_bit 48 w) :: u8))
     OR push_bit 56 (ucast (ucast (drop_bit 56 w) :: u8)) = (w :: u64)"
proof (rule bit_word_eqI)
  fix n assume "n < LENGTH(64)"
  hence n: "n < 64" by simp
  show "bit (ucast (ucast w :: u8) OR push_bit 8 (ucast (ucast (drop_bit 8 w) :: u8))
     OR push_bit 16 (ucast (ucast (drop_bit 16 w) :: u8))
     OR push_bit 24 (ucast (ucast (drop_bit 24 w) :: u8))
     OR push_bit 32 (ucast (ucast (drop_bit 32 w) :: u8))
     OR push_bit 40 (ucast (ucast (drop_bit 40 w) :: u8))
     OR push_bit 48 (ucast (ucast (drop_bit 48 w) :: u8))
     OR push_bit 56 (ucast (ucast (drop_bit 56 w) :: u8)) :: u64) n = bit w n"
    unfolding bit_or_iff bit_byte0 bit_byte using n by (cases "bit w n") auto
qed

lemma rd32_le32: "rd32 (xs @ le32 w @ ys) (length xs) = w"
  by (simp add: rd32_def le32_def nth_append le32_value)

lemma rd64_le64: "rd64 (xs @ le64 w @ ys) (length xs) = w"
  by (simp add: rd64_def le64_def nth_append le64_value)


lemma length_le [simp]: "length (le16 a) = 2" "length (le32 b) = 4" "length (le64 c) = 8"
  by (simp_all add: le16_def le32_def le64_def)

lemma rd32_skip: "length xs \<le> i \<Longrightarrow> rd32 (xs @ ys) i = rd32 ys (i - length xs)"
  by (simp add: rd32_def nth_append Suc_diff_le)

lemma rd64_skip: "length xs \<le> i \<Longrightarrow> rd64 (xs @ ys) i = rd64 ys (i - length xs)"
  by (simp add: rd64_def nth_append Suc_diff_le)

lemma rd32_hit: "rd32 (le32 w @ ys) 0 = w"
  using rd32_le32[of "[]" w ys] by simp

lemma rd64_hit: "rd64 (le64 w @ ys) 0 = w"
  using rd64_le64[of "[]" w ys] by simp

lemmas rd_simps = rd32_skip rd64_skip rd32_hit rd64_hit

lemma checkpoint_header_roundtrip: "checkpoint_header_at (header_block h) = h"
  by (simp add: checkpoint_header_at_def header_block_def write_bytes_def
        checkpoint_header_bytes_def rd_simps)

section \<open>Checkpoint selection at recovery\<close>

lemma read_into_small:
  "room < 4096 \<Longrightarrow>
     lsfs_read_block_into ctx b room =
       (if io_in_range ctx b 1 then Inl (Buffer_overrun (4096 - room)) else Inr None)"
  by (simp add: lsfs_read_block_into_def lsfs_read_block_def LSFS_BLOCK_SIZE_def)

lemma checkpoint_load_cases:
  "lsfs_checkpoint_load ctx =
     (if io_in_range ctx (cp_blocks 0) 1 \<or> io_in_range ctx (cp_blocks 1) 1
      then Inl (Buffer_overrun 4048) else Inr (LSFS_ERR_CORRUPT, ctx))"
  by (simp add: lsfs_checkpoint_load_def read_into_small checkpoint_header_size_def
        checkpoint_best_def header_valid_def)

lemma both_valid_in_range:
  "io_in_range both_valid_ctx (cp_blocks 0) 1"
  by (simp add: io_in_range_def cp_blocks_def both_valid_ctx_def example_ctx_def
        LSFS_CHECKPOINT0_START_def)

text \<open>
  Claim C4 fails on the code: the first header block that can be read is stored, all
  4096 bytes of it, into a 48-byte header structure on the stack, which overruns it
  by 4048 bytes before any header is examined. This happens on the image with two
  complete headers, where the claim expects the one with the higher sequence to be
  loaded; and on every state the function either overruns the structure or finds no
  header and returns the corruption error, so it never returns a loaded checkpoint
  within defined behaviour.
\<close>

theorem checkpoint_load_overrun:
  "lsfs_checkpoint_load both_valid_ctx = Inl (Buffer_overrun 4048)
   \<and> (lsfs_checkpoint_load ctx = Inl (Buffer_overrun 4048)
      \<or> lsfs_checkpoint_load ctx = Inr (LSFS_ERR_CORRUPT, ctx))"
proof
  show "lsfs_checkpoint_load both_valid_ctx = Inl (Buffer_overrun 4048)"
    using both_valid_in_range by (simp add: checkpoint_load_cases)
  show "lsfs_checkpoint_load ctx = Inl (Buffer_overrun 4048)
        \<or> lsfs_checkpoint_load ctx = Inr (LSFS_ERR_CORRUPT, ctx)"
    by (simp add: checkpoint_load_cases)
qed

section \<open>Roll-forward replay\<close>

lemma replay_candidate_cases:
  "replay_candidate ctx seg =
     (if io_in_range ctx (lsfs_segment_to_block seg 0) 1
      then Inl (Buffer_overrun 4072) else Inr None)"
  by (simp add: replay_candidate_def read_into_small segment_header_size_def)

lemma recover_in_range:
  "io_in_range recover_ctx (cp_blocks 0) 1"
  "io_in_range recover_ctx (lsfs_segment_to_block 0 0) 1"
  "(ucast (0 :: u32) :: u64) < sb_total_segments (sb recover_ctx)"
  by (simp_all add: io_in_range_def cp_blocks_def recover_ctx_def both_valid_ctx_def
        example_ctx_def example_sb_def LSFS_CHECKPOINT0_START_def lsfs_segment_to_block_def
        LSFS_LOG_START_def)

text \<open>
  Claim C3 fails on the code. \<^verbatim>\<open>lsfs_checkpoint_recover\<close> starts with
  \<^verbatim>\<open>lsfs_checkpoint_load\<close>, which overruns its header structure on the image with a
  valid checkpoint and a replayable segment 0. The roll-forward loop itself, started
  on that image at segment 0, reads the first block of the segment into the 24-byte
  local \<^verbatim>\<open>seg_header\<close> and overruns it by 4072 bytes before the magic or the timestamp
  is looked at. On every state the loop either does this at its first segment or
  returns the state unchanged: no segment is ever replayed within defined behaviour.
\<close>

theorem checkpoint_recover_overrun:
  "lsfs_checkpoint_recover recover_ctx 1010 = Some (Inl (Buffer_overrun 4048))
   \<and> recover_scan recover_ctx 0 = Some (Inl (Buffer_overrun 4072))
   \<and> recover_scan ctx seg =
       Some (if ucast seg < sb_total_segments (sb ctx)
                \<and> io_in_range ctx (lsfs_segment_to_block seg 0) 1
             then Inl (Buffer_overrun 4072) else Inr ctx)"
proof (intro conjI)
  show "lsfs_checkpoint_recover recover_ctx 1010 = Some (Inl (Buffer_overrun 4048))"
    using recover_in_range(1) by (simp add: lsfs_checkpoint_recover_def checkpoint_load_cases)
  show "recover_scan recover_ctx 0 = Some (Inl (Buffer_overrun 4072))"
    using recover_in_range(2,3) by (subst recover_scan.simps) (simp add: replay_candidate_cases)
  show "recover_scan ctx seg =
       Some (if ucast seg < sb_total_segments (sb ctx)
                \<and> io_in_range ctx (lsfs_segment_to_block seg 0) 1
             then Inl (Buffer_overrun 4072) else Inr ctx)"
    by (subst recover_scan.simps) (simp add: replay_candidate_cases)
qed

section \<open>Cleaner: a segment without the magic\<close>

lemma set_state_back:
  assumes "unat sid < length (st_entries (segtable c))"
      and "su_state (st_entries (segtable c) ! unat sid) = s"
  shows "set_segment_state (set_segment_state c sid s') sid s = c"
proof -
  let ?es = "st_entries (segtable c)"
  have "(?es ! unat sid)\<lparr>su_state := s\<rparr> = ?es ! unat sid" using assms(2) by simp
  thus ?thesis using assms(1) by (simp add: set_segment_state_def list_update_same_conv)
qed

lemma set_state_io [simp]:
  "lsfs_read_blocks (set_segment_state c sid s) = lsfs_read_blocks c"
  by (simp add: fun_eq_iff lsfs_read_blocks_def set_segment_state_def io_in_range_def)

text \<open>
  Claim C8. When \<^verbatim>\<open>lsfs_gc_clean_segment\<close> gets as far as reading a segment (the id is
  in the table, the entry is full and has live blocks, the read succeeds) and the
  summary read does not carry the segment magic, it returns the corruption error and
  the whole context is as before: the entry is in state full again, its live-block
  count is unchanged, nothing was relocated and the segment was not freed.
\<close>

theorem gc_clean_corrupt_segment:
  assumes "segment_id < st_count (segtable ctx)"
      and "unat segment_id < length (st_entries (segtable ctx))"
      and "su_state (st_entries (segtable ctx) ! unat segment_id) = LSFS_SEG_FULL"
      and "su_live_blocks (st_entries (segtable ctx) ! unat segment_id) \<noteq> 0"
      and "lsfs_read_blocks ctx (lsfs_segment_to_block segment_id 0) 1024 = Some data"
      and "sh_magic (segment_header_at (concat data)) \<noteq> LSFS_SEGMENT_MAGIC"
  shows "lsfs_gc_clean_segment ctx segment_id now = (LSFS_ERR_CORRUPT, ctx)
       \<and> su_state (st_entries (segtable (snd (lsfs_gc_clean_segment ctx segment_id now)))
                     ! unat segment_id) = LSFS_SEG_FULL
       \<and> su_live_blocks (st_entries (segtable (snd (lsfs_gc_clean_segment ctx segment_id now)))
                     ! unat segment_id)
           = su_live_blocks (st_entries (segtable ctx) ! unat segment_id)"
proof -
  have "\<not> segment_id \<ge> st_count (segtable ctx)" using assms(1) by simp
  hence "lsfs_gc_clean_segment ctx segment_id now
          = (LSFS_ERR_CORRUPT,
             set_segment_state (set_segment_state ctx segment_id LSFS_SEG_CLEANING)
               segment_id LSFS_SEG_FULL)"
    using assms(3-6) by (simp add: lsfs_gc_clean_segment_def Let_def)
  hence "lsfs_gc_clean_segment ctx segment_id now = (LSFS_ERR_CORRUPT, ctx)"
    using set_state_back[OF assms(2,3)] by simp
  thus ?thesis using assms(3) by simp
qed


lemma example_read_segment0:
  "lsfs_read_blocks example_ctx (lsfs_segment_to_block 0 0) 1024 = Some (replicate 1024 zero_block)"
proof -
  have "io_in_range example_ctx (lsfs_segment_to_block 0 0) 1024"
    by (simp add: io_in_range_def example_ctx_def lsfs_segment_to_block_def LSFS_LOG_START_def)
  moreover have "map (\<lambda>k. disk example_ctx (lsfs_segment_to_block 0 0 + of_nat k)) [0..<1024]
                 = replicate 1024 zero_block"
    by (simp add: example_ctx_def map_replicate_const)
  ultimately show ?thesis by (simp add: lsfs_read_blocks_def)
qed

lemma zero_segment_magic:
  "sh_magic (segment_header_at (concat (replicate 1024 zero_block))) = 0"
proof -
  have "replicate 1024 zero_block = zero_block # replicate 1023 zero_block"
    by (simp add: replicate_Suc[symmetric] del: replicate_Suc)
  hence "concat (replicate 1024 zero_block) = zero_block @ concat (replicate 1023 zero_block)"
    by simp
  thus ?thesis
    by (simp add: segment_header_at_def rd32_def nth_append zero_block_def)
qed

theorem gc_clean_corrupt_segment_witness:
  "(0 :: u32) < st_count (segtable example_ctx)
   \<and> unat (0 :: u32) < length (st_entries (segtable example_ctx))
   \<and> su_state (st_entries (segtable example_ctx) ! unat (0 :: u32)) = LSFS_SEG_FULL
   \<and> su_live_blocks (st_entries (segtable example_ctx) ! unat (0 :: u32)) \<noteq> 0
   \<and> lsfs_read_blocks example_ctx (lsfs_segment_to_block 0 0) 1024
       = Some (replicate 1024 zero_block)
   \<and> sh_magic (segment_header_at (concat (replicate 1024 zero_block))) \<noteq> LSFS_SEGMENT_MAGIC
   \<and> lsfs_gc_clean_segment example_ctx 0 1010 = (LSFS_ERR_CORRUPT, example_ctx)"
proof -
  have a: "(0 :: u32) < st_count (segtable example_ctx)"
          "unat (0 :: u32) < length (st_entries (segtable example_ctx))"
          "su_state (st_entries (segtable example_ctx) ! unat (0 :: u32)) = LSFS_SEG_FULL"
          "su_live_blocks (st_entries (segtable example_ctx) ! unat (0 :: u32)) \<noteq> 0"
    by (simp_all add: example_ctx_def example_segtable_def)
  have m: "sh_magic (segment_header_at (concat (replicate 1024 zero_block))) \<noteq> LSFS_SEGMENT_MAGIC"
    by (simp add: zero_segment_magic LSFS_SEGMENT_MAGIC_def)
  from gc_clean_corrupt_segment[OF a example_read_segment0 m, of 1010]
       a example_read_segment0 m
  show ?thesis by blast
qed

section \<open>Inode write-back and the inode slot\<close>


lemma rd32_take: "i + 4 \<le> n \<Longrightarrow> rd32 (take n xs) i = rd32 xs i"
  by (simp add: rd32_def)

lemma length_inode_bytes [simp]: "length (inode_bytes d) = 256"
  by (simp add: inode_bytes_def fixed_def length_concat comp_def sum_list_triv)

lemma bit_byte_of_u64:
  "bit (push_bit m (ucast (ucast (drop_bit m (w :: u64)) :: u8) :: u32)) n
     \<longleftrightarrow> m \<le> n \<and> n < m + 8 \<and> n < 32 \<and> bit w n"
  by (auto simp: bit_simps dest: bit_imp_le_length)

lemma bit_byte0_of_u64:
  "bit (ucast (ucast (w :: u64) :: u8) :: u32) n \<longleftrightarrow> n < 8 \<and> bit w n"
  by (auto simp: bit_simps dest: bit_imp_le_length)

lemma rd32_le64: "rd32 (le64 w @ ys) 0 = ucast w"
proof -
  have "ucast (ucast w :: u8) OR push_bit 8 (ucast (ucast (drop_bit 8 w) :: u8))
     OR push_bit 16 (ucast (ucast (drop_bit 16 w) :: u8))
     OR push_bit 24 (ucast (ucast (drop_bit 24 w) :: u8)) = (ucast w :: u32)"
  proof (rule bit_word_eqI)
    fix n assume "n < LENGTH(32)"
    hence n: "n < 32" by simp
    show "bit (ucast (ucast w :: u8) OR push_bit 8 (ucast (ucast (drop_bit 8 w) :: u8))
     OR push_bit 16 (ucast (ucast (drop_bit 16 w) :: u8))
     OR push_bit 24 (ucast (ucast (drop_bit 24 w) :: u8)) :: u32) n = bit (ucast w :: u32) n"
      unfolding bit_or_iff bit_byte0_of_u64 bit_byte_of_u64 bit_ucast_iff
      using n by (cases "bit w n") auto
  qed
  thus ?thesis by (simp add: rd32_def le64_def)
qed

lemma di_ino_at: "di_ino (inode_at b off) = rd32 b off"
  by (simp add: inode_at_def)

lemma image_slot0:
  "di_ino (inode_at (inode_mem_image m) 0) = di_ino (mi_disk_inode m)"
proof -
  let ?X = "inode_bytes (mi_disk_inode m) @ le64 (mi_disk_location m) @ le32 (mi_version m)
                @ le32 (mi_refcount m) @ [if mi_dirty m then 1 else 0] @ mi_tail m
                @ replicate 4096 0"
  have "rd32 (take 4096 ?X) 0 = rd32 ?X 0" by (rule rd32_take) simp
  moreover have "rd32 ?X 0 = di_ino (mi_disk_inode m)"
    unfolding inode_bytes_def append_assoc by (rule rd32_hit)
  ultimately show ?thesis unfolding di_ino_at inode_mem_image_def by simp
qed

lemma image_slot1:
  "di_ino (inode_at (inode_mem_image m) 256) = ucast (mi_disk_location m)"
proof -
  let ?Y = "le64 (mi_disk_location m) @ le32 (mi_version m)
                @ le32 (mi_refcount m) @ [if mi_dirty m then 1 else 0] @ mi_tail m
                @ replicate 4096 0"
  let ?X = "inode_bytes (mi_disk_inode m) @ ?Y"
  have "rd32 (take 4096 ?X) 256 = rd32 ?X 256" by (rule rd32_take) simp
  moreover have "rd32 ?X 256 = rd32 ?Y (256 - length (inode_bytes (mi_disk_inode m)))"
    by (rule rd32_skip) simp
  moreover have "rd32 ?Y 0 = ucast (mi_disk_location m)" by (rule rd32_le64)
  ultimately show ?thesis unfolding di_ino_at inode_mem_image_def by simp
qed


lemma length_inode_mem_image [simp]: "length (inode_mem_image m) = 4096"
  by (simp add: inode_mem_image_def)

lemma imap_set_17:
  "lsfs_imap_set (imap example_ctx) 17 2050 =
     (LSFS_OK, (imap example_ctx)\<lparr>im_entries :=
        [\<lparr>ie_ino = 1, ie_version = 1, ie_location = 1026\<rparr>,
         \<lparr>ie_ino = 17, ie_version = 1, ie_location = 2050\<rparr>]\<rparr>)"
  apply (simp add: lsfs_imap_set_def imap_find_def im_count_def example_ctx_def Let_def
      imap_find_insert_pos_def word_le_nat_alt)
  apply (simp add: imap_find_loop.simps[of _ _ 0 0] imap_find_loop.simps[of _ _ 1 0]
      imap_insert_pos_loop.simps[of _ _ 0 "Suc 0"] imap_insert_pos_loop.simps[of _ _ "Suc 0" "Suc 0"])
  done

lemma imap_get_17:
  "lsfs_imap_get ((imap example_ctx)\<lparr>im_entries :=
        [\<lparr>ie_ino = 1, ie_version = 1, ie_location = 1026\<rparr>,
         \<lparr>ie_ino = 17, ie_version = 1, ie_location = 2050\<rparr>]\<rparr>) 17 = (LSFS_OK, 2050, 1)"
  apply (simp add: lsfs_imap_get_def imap_find_def im_count_def example_ctx_def Let_def)
  apply (simp add: imap_find_loop.simps[of _ _ 0 1] imap_find_loop.simps[of _ _ 1 1])
  done

lemma inode_write_17:
  "lsfs_inode_write example_ctx new_file_inode 1010 =
     (LSFS_OK,
      example_ctx\<lparr>segbuf := (segbuf example_ctx)
                     \<lparr>sg_data := (sg_data (segbuf example_ctx))[1 := inode_mem_image new_file_inode],
                      sg_block_info := (sg_block_info (segbuf example_ctx))
                         [1 := \<lparr>bi_ino = 17, bi_offset = 0, bi_type = LSFS_BLOCK_TYPE_INODE,
                                bi_reserved = bi_reserved zero_block_info\<rparr>],
                      sg_block_count := 2\<rparr>,
                  writes_since_checkpoint := 1,
                  imap := (imap example_ctx)\<lparr>im_entries :=
                     [\<lparr>ie_ino = 1, ie_version = 1, ie_location = 1026\<rparr>,
                      \<lparr>ie_ino = 17, ie_version = 1, ie_location = 2050\<rparr>]\<rparr>\<rparr>,
      new_file_inode\<lparr>mi_disk_location := 2050, mi_version := 1, mi_dirty := False\<rparr>)"
proof -
  have a: "lsfs_segment_append_block example_ctx 1010 (inode_mem_image new_file_inode) 17 0
             LSFS_BLOCK_TYPE_INODE =
           (2050, example_ctx\<lparr>segbuf := (segbuf example_ctx)
                     \<lparr>sg_data := (sg_data (segbuf example_ctx))[1 := inode_mem_image new_file_inode],
                      sg_block_info := (sg_block_info (segbuf example_ctx))
                         [1 := \<lparr>bi_ino = 17, bi_offset = 0, bi_type = LSFS_BLOCK_TYPE_INODE,
                                bi_reserved = bi_reserved zero_block_info\<rparr>],
                      sg_block_count := 2\<rparr>,
                  writes_since_checkpoint := 1\<rparr>)"
    by (simp add: lsfs_segment_append_block_def Let_def example_ctx_def lsfs_segment_to_block_def
          LSFS_LOG_START_def word_le_nat_alt)
  have i: "di_ino (mi_disk_inode new_file_inode) = 17" "mi_dirty new_file_inode"
       "mi_disk_location new_file_inode = 0" "mi_version new_file_inode = 0"
    by (simp_all add: new_file_inode_def)
  show ?thesis
    by (simp add: lsfs_inode_write_def Let_def i a imap_set_17)
qed


lemma segment_alloc_frame:
  "writes_since_checkpoint (fst (snd (lsfs_segment_alloc c now))) = writes_since_checkpoint c"
  "last_checkpoint (fst (snd (lsfs_segment_alloc c now))) = last_checkpoint c"
  "disk (fst (snd (lsfs_segment_alloc c now))) = disk c"
  "disk_size (fst (snd (lsfs_segment_alloc c now))) = disk_size c"
  "imap (fst (snd (lsfs_segment_alloc c now))) = imap c"
  "icache (fst (snd (lsfs_segment_alloc c now))) = icache c"
  by (simp_all add: lsfs_segment_alloc_def Let_def split: option.splits)

lemma checkpoint_needed_iff:
  "lsfs_checkpoint_needed c now \<longleftrightarrow>
     CHECKPOINT_INTERVAL \<le> writes_since_checkpoint c
     \<or> CHECKPOINT_TIME_SEC \<le> now - last_checkpoint c"
  by (simp add: lsfs_checkpoint_needed_def)

lemma flush_finish_frame:
  assumes "\<not> lsfs_checkpoint_needed c now"
  shows "disk (segment_flush_finish c sg now) = disk c
       \<and> disk_size (segment_flush_finish c sg now) = disk_size c
       \<and> imap (segment_flush_finish c sg now) = imap c
       \<and> icache (segment_flush_finish c sg now) = icache c"
  using assms
  by (simp add: segment_flush_finish_def Let_def split_beta checkpoint_needed_iff
        segment_alloc_frame)

lemma written_ctx_eq:
  "written_ctx =
      example_ctx\<lparr>segbuf := (segbuf example_ctx)
                     \<lparr>sg_data := (sg_data (segbuf example_ctx))[1 := inode_mem_image new_file_inode],
                      sg_block_info := (sg_block_info (segbuf example_ctx))
                         [1 := \<lparr>bi_ino = 17, bi_offset = 0, bi_type = LSFS_BLOCK_TYPE_INODE,
                                bi_reserved = bi_reserved zero_block_info\<rparr>],
                      sg_block_count := 2\<rparr>,
                  writes_since_checkpoint := 1,
                  imap := (imap example_ctx)\<lparr>im_entries :=
                     [\<lparr>ie_ino = 1, ie_version = 1, ie_location = 1026\<rparr>,
                      \<lparr>ie_ino = 17, ie_version = 1, ie_location = 2050\<rparr>]\<rparr>\<rparr>"
  by (simp add: written_ctx_def inode_write_17)

lemma take_two: "2 \<le> length xs \<Longrightarrow> take 2 xs = [xs ! 0, xs ! 1]"
  by (cases xs; cases "tl xs") (auto simp: numeral_2_eq_2)

lemma written_fields:
  "sg_block_count (segbuf written_ctx) = 2"
  "sg_segment_id (segbuf written_ctx) = 1"
  "length (sg_data (segbuf written_ctx)) = 1024"
  "sg_data (segbuf written_ctx) ! 1 = inode_mem_image new_file_inode"
  "sg_data (segbuf written_ctx) ! Suc 0 = inode_mem_image new_file_inode"
  "disk_size written_ctx = 67108864"
  "\<not> readonly written_ctx"
  "icache written_ctx = []"
  "writes_since_checkpoint written_ctx = 1"
  "last_checkpoint written_ctx = 1000"
  by (simp_all add: written_ctx_eq example_ctx_def)

lemma flushed_facts:
  "fst (lsfs_segment_flush written_ctx 1010) = LSFS_OK"
  "disk flushed_ctx 2050 = inode_mem_image new_file_inode"
  "disk_size flushed_ctx = 67108864"
  "imap flushed_ctx = imap written_ctx"
  "icache flushed_ctx = []"
proof -
  have a: "1 < sg_block_count (segbuf written_ctx)"
    by (simp add: written_fields)
  let ?sg = "segbuf written_ctx"
  let ?s = "summary_block ?sg 1010"
  let ?img = "inode_mem_image new_file_inode"
  let ?data = "(sg_data ?sg)[0 := ?s]"
  define c0 where "c0 = written_ctx\<lparr>segbuf := ?sg\<lparr>sg_data := ?data\<rparr>\<rparr>"
  define c1 where "c1 = c0\<lparr>disk := (disk c0)(2049 := ?s, 2050 := ?img),
                            dev_trace := dev_trace c0 @ [DevWrite 2049 [?s, ?img]]\<rparr>"
  have t: "take (unat (sg_block_count ?sg)) ?data = [?s, ?img]"
  proof -
    have u: "unat (sg_block_count ?sg) = 2" by (simp add: written_fields)
    have l: "2 \<le> length ?data" by (simp add: written_fields)
    have d: "?data ! 0 = ?s" "?data ! 1 = ?img"
      by (simp_all add: written_fields)
    show ?thesis unfolding u take_two[OF l] d ..
  qed
  have s: "lsfs_segment_to_block (sg_segment_id ?sg) 0 = 2049"
    by (simp add: written_fields lsfs_segment_to_block_def LSFS_LOG_START_def)
  have w: "lsfs_write_blocks c0 2049 [?s, ?img] = (LSFS_OK, c1)"
    by (simp add: lsfs_write_blocks_def io_in_range_def c0_def c1_def written_fields)
  have n: "\<not> lsfs_checkpoint_needed c1 1010"
    by (simp add: lsfs_checkpoint_needed_def c1_def c0_def written_fields
          CHECKPOINT_INTERVAL_def CHECKPOINT_TIME_SEC_def word_le_nat_alt)
  have f: "lsfs_segment_flush written_ctx 1010 = (LSFS_OK, segment_flush_finish c1 ?sg 1010)"
    unfolding flush_nonempty[OF a] Let_def t s c0_def[symmetric] w by simp
  from flush_finish_frame[OF n, of ?sg]
  have fr: "disk (segment_flush_finish c1 ?sg 1010) = disk c1"
           "disk_size (segment_flush_finish c1 ?sg 1010) = disk_size c1"
           "imap (segment_flush_finish c1 ?sg 1010) = imap c1"
           "icache (segment_flush_finish c1 ?sg 1010) = icache c1"
    by simp_all
  show "fst (lsfs_segment_flush written_ctx 1010) = LSFS_OK" by (simp add: f)
  show "disk flushed_ctx 2050 = inode_mem_image new_file_inode"
    by (simp add: flushed_ctx_def f fr, simp add: c1_def)
  show "disk_size flushed_ctx = 67108864"
    by (simp add: flushed_ctx_def f fr, simp add: c1_def c0_def written_fields)
  show "imap flushed_ctx = imap written_ctx"
    by (simp add: flushed_ctx_def f fr, simp add: c1_def c0_def)
  show "icache flushed_ctx = []"
    by (simp add: flushed_ctx_def f fr, simp add: c1_def c0_def written_fields)
qed

lemma inode_get_17:
  "fst (lsfs_inode_get flushed_ctx 17 1010) = None"
proof -
  have c: "icache_find flushed_ctx 17 = None" by (simp add: icache_find_def flushed_facts)
  have g: "lsfs_imap_get (imap flushed_ctx) 17 = (LSFS_OK, 2050, 1)"
    by (simp add: flushed_facts written_ctx_eq imap_get_17)
  have e: "inode_cache_evict flushed_ctx 1010 = flushed_ctx"
    by (subst inode_cache_evict.simps) (simp add: flushed_facts LSFS_INODE_CACHE_SIZE_def)
  have r: "lsfs_read_block flushed_ctx 2050 = Some (inode_mem_image new_file_inode)"
    by (simp add: lsfs_read_block_def io_in_range_def flushed_facts)
  have m: "unat ((17 :: u32) mod 16) * 256 = 256" by simp
  have s: "di_ino (inode_at (inode_mem_image new_file_inode) 256) = 0"
    by (simp add: image_slot1 new_file_inode_def)
  show ?thesis
    by (simp add: lsfs_inode_get_def c g e r m s Let_def)
qed

text \<open>
  Claim C1 fails on the code. \<^verbatim>\<open>lsfs_inode_write\<close> hands the address of the 256-byte
  record to \<^verbatim>\<open>lsfs_segment_append_block\<close>, which copies a whole block from there. For
  every inode the record therefore lands at byte offset 0 of the appended block,
  whatever \<^verbatim>\<open>ino mod 16\<close> is, and the bytes behind it are the memory that follows the
  record, not zero: the inode number field of slot 1 holds the low half of
  \<^verbatim>\<open>disk_location\<close>. For the new inode 17 the write succeeds and maps 17 to block
  2050; slot \<^verbatim>\<open>17 mod 16 = 1\<close> of the block appended carries the inode number 0 and slot
  0 carries 17; and once the segment is on the device, \<^verbatim>\<open>lsfs_inode_get\<close>, which
  decodes slot \<^verbatim>\<open>ino mod 16\<close> and compares the inode number, rejects the block the
  inode map points to.
\<close>

theorem inode_write_slot_mismatch:
  "fst (lsfs_inode_write example_ctx new_file_inode 1010) = LSFS_OK
   \<and> lsfs_imap_get (imap written_ctx) 17 = (LSFS_OK, 2050, 1)
   \<and> sg_data (segbuf written_ctx) ! 1 = inode_mem_image new_file_inode
   \<and> di_ino (inode_at (inode_mem_image new_file_inode) (unat ((17 :: u32) mod 16) * 256)) = 0
   \<and> di_ino (inode_at (inode_mem_image new_file_inode) 0) = 17
   \<and> fst (lsfs_segment_flush written_ctx 1010) = LSFS_OK
   \<and> lsfs_read_block flushed_ctx 2050 = Some (inode_mem_image new_file_inode)
   \<and> fst (lsfs_inode_get flushed_ctx 17 1010) = None
   \<and> di_ino (inode_at (inode_mem_image m) 0) = di_ino (mi_disk_inode m)
   \<and> di_ino (inode_at (inode_mem_image m) 256) = ucast (mi_disk_location m)"
proof (intro conjI)
  show "fst (lsfs_inode_write example_ctx new_file_inode 1010) = LSFS_OK"
    by (simp add: inode_write_17)
  show "lsfs_imap_get (imap written_ctx) 17 = (LSFS_OK, 2050, 1)"
    by (simp add: written_ctx_eq imap_get_17)
  show "sg_data (segbuf written_ctx) ! 1 = inode_mem_image new_file_inode"
    by (rule written_fields)
  show "di_ino (inode_at (inode_mem_image new_file_inode) (unat ((17 :: u32) mod 16) * 256)) = 0"
    by (simp add: image_slot1 new_file_inode_def)
  show "di_ino (inode_at (inode_mem_image new_file_inode) 0) = 17"
    by (simp add: image_slot0 new_file_inode_def)
  show "fst (lsfs_segment_flush written_ctx 1010) = LSFS_OK"
    by (rule flushed_facts)
  show "lsfs_read_block flushed_ctx 2050 = Some (inode_mem_image new_file_inode)"
    by (simp add: lsfs_read_block_def io_in_range_def flushed_facts)
  show "fst (lsfs_inode_get flushed_ctx 17 1010) = None"
    by (rule inode_get_17)
  show "di_ino (inode_at (inode_mem_image m) 0) = di_ino (mi_disk_inode m)"
    by (rule image_slot0)
  show "di_ino (inode_at (inode_mem_image m) 256) = ucast (mi_disk_location m)"
    by (rule image_slot1)
qed

end
